theory Spec2Isabelle
  imports Main "HOL-Library.Char_ord" "HOL-Library.List_Lexorder"
begin

section \<open>JavaScript strings\<close>

text \<open>
  Strings are lists of characters.  \<^verbatim>\<open>String.prototype.toLowerCase\<close> and
  \<^verbatim>\<open>String.prototype.trim\<close> follow the Unicode tables of the JavaScript engine; they are
  fields of the browser below, so that what is proved holds for whatever the engine
  computes.  \<open>ascii_toLowerCase\<close> and \<open>ascii_trim\<close> are what the two methods compute on
  strings of ASCII characters (the letters A-Z are folded, the six ASCII white-space
  characters are stripped at both ends); the example browsers use them.
  \<^verbatim>\<open>Number.toString\<close> is the decimal rendering, and the class \<^verbatim>\<open>[a-zA-Z0-9]\<close> of
  \<^verbatim>\<open>createInstanceKey\<close> is \<open>isAlnum\<close>.
\<close>

definition toLowerChar :: "char \<Rightarrow> char" where
  "toLowerChar c =
     (case map_of (zip ''ABCDEFGHIJKLMNOPQRSTUVWXYZ'' ''abcdefghijklmnopqrstuvwxyz'') c of
        Some l \<Rightarrow> l
      | None \<Rightarrow> c)"

definition ascii_toLowerCase :: "string \<Rightarrow> string" where
  "ascii_toLowerCase s = map toLowerChar s"

definition isSpace :: "char \<Rightarrow> bool" where
  "isSpace c = (c \<in> set [CHR '' '', CHR 0x09, CHR 0x0A, CHR 0x0B, CHR 0x0C, CHR 0x0D])"

definition ascii_trim :: "string \<Rightarrow> string" where
  "ascii_trim s = rev (dropWhile isSpace (rev (dropWhile isSpace s)))"

definition isAlnum :: "char \<Rightarrow> bool" where
  "isAlnum c =
     (c \<in> set (''abcdefghijklmnopqrstuvwxyz'' @ ''ABCDEFGHIJKLMNOPQRSTUVWXYZ'' @ ''0123456789''))"

definition digit :: "nat \<Rightarrow> char" where
  "digit d = ''0123456789'' ! d"

fun toString :: "nat \<Rightarrow> string" where
  "toString n = (if n < 10 then [digit n] else toString (n div 10) @ [digit (n mod 10)])"

declare toString.simps [simp del]

text \<open>\<^verbatim>\<open>Array.prototype.findIndex\<close>; \<open>None\<close> is the result \<^verbatim>\<open>-1\<close>.\<close>

fun findIndex :: "('a \<Rightarrow> bool) \<Rightarrow> 'a list \<Rightarrow> nat option" where
  "findIndex P [] = None"
| "findIndex P (x # xs) = (if P x then Some 0 else map_option Suc (findIndex P xs))"

text \<open>\<^verbatim>\<open>xs.splice(index, 1)\<close>: the list without its element at \<open>index\<close>.\<close>

definition splice1 :: "nat \<Rightarrow> 'a list \<Rightarrow> 'a list" where
  "splice1 index xs = take index xs @ drop (Suc index) xs"


section \<open>The data model\<close>

datatype action = Add | Remove

text \<open>
  A failure group, as \<^verbatim>\<open>handleAction\<close> builds it for \<^verbatim>\<open>saveFailedOperation\<close>.  Time
  stamps are kept as the clock reading (milliseconds) that \<^verbatim>\<open>toISOString\<close> renders.
\<close>

record failed_operation =
  op_action :: action
  op_labelName :: string
  op_failedUids :: "string list"
  op_timestamp :: nat
  op_retryCount :: nat

text \<open>
  An execution result.  \<open>ex_isRetry\<close> is \<open>False\<close> where the JavaScript object has no
  \<^verbatim>\<open>isRetry\<close> property; \<open>ex_id\<close> is \<open>None\<close> until \<^verbatim>\<open>saveExecutionResult\<close> adds the id.
\<close>

record execution_result =
  ex_action :: action
  ex_labelName :: string
  ex_totalCount :: nat
  ex_successCount :: nat
  ex_failedCount :: nat
  ex_failedUids :: "string list"
  ex_startTime :: nat
  ex_duration :: int
  ex_error :: "string option"
  ex_isRetry :: bool
  ex_id :: "string option"

text \<open>
  What \<^verbatim>\<open>chrome.storage.local\<close> holds under the instance keys: the label cache (an object
  from label names to label IDs), the two label lists, the execution history and the failed
  operations.  Every base key is written with one shape only (see the calls of
  \<^verbatim>\<open>setInstanceData\<close>).
\<close>

datatype stored =
    LabelCache "string \<rightharpoonup> nat"
  | LabelList "string list"
  | ExecutionHistory "execution_result list"
  | FailedOperations "failed_operation list"

fun as_cache :: "stored \<Rightarrow> (string \<rightharpoonup> nat)" where
  "as_cache (LabelCache m) = m"
| "as_cache _ = Map.empty"

fun as_labels :: "stored \<Rightarrow> string list" where
  "as_labels (LabelList ls) = ls"
| "as_labels _ = []"

fun as_history :: "stored \<Rightarrow> execution_result list" where
  "as_history (ExecutionHistory h) = h"
| "as_history _ = []"

fun as_failed :: "stored \<Rightarrow> failed_operation list" where
  "as_failed (FailedOperations ops) = ops"
| "as_failed _ = []"


section \<open>The browser\<close>

text \<open>The fields of a parsed \<^verbatim>\<open>URL\<close> object that the extension reads.\<close>

record url =
  protocol :: string
  host :: string

text \<open>A tab as \<^verbatim>\<open>chrome.tabs.query\<close> returns it; \<open>tab_url\<close> is \<open>None\<close> when the property is undefined.\<close>

record tab =
  tab_url :: "string option"

datatype http_method = GET | POST | DELETE

text \<open>
  A \<^verbatim>\<open>fetch\<close> request: method, address, the \<^verbatim>\<open>X-Auth-Token\<close> header and, for the POST of
  \<^verbatim>\<open>addLabel\<close>, the \<^verbatim>\<open>Name\<close> of the JSON body \<^verbatim>\<open>{Name, Priority: 0}\<close>.
\<close>

record request =
  req_method :: http_method
  address :: string
  auth_token :: string
  body_Name :: "string option"

text \<open>The entry \<^verbatim>\<open>l.Label\<close> of a photo's label list, and the photo detail that carries the list.\<close>

record photo_label =
  ID :: nat
  Name :: string
  Slug :: string

record photo_details =
  Labels :: "photo_label list option"

text \<open>
  A \<^verbatim>\<open>Response\<close>: \<open>body_text\<close> is what \<^verbatim>\<open>response.text()\<close> yields, \<open>json\<close> what
  \<^verbatim>\<open>response.json()\<close> yields, \<open>None\<close> when the body is not JSON and the call rejects.
\<close>

record response =
  status :: nat
  body_text :: string
  json :: "photo_details option"

definition ok :: "response \<Rightarrow> bool" where
  "ok r = (200 \<le> status r \<and> status r \<le> 299)"

datatype fetch_result = NetworkError string | Response response

text \<open>The \<^verbatim>\<open>data\<close> of the content script's reply to \<^verbatim>\<open>getPhotoPrismData\<close>.\<close>

record page_data =
  uids :: "string list"
  token :: string

text \<open>
  What the popup observes and does not change, fixed for the length of one invocation:
  the result of \<^verbatim>\<open>chrome.tabs.query({active: true, currentWindow: true})\<close>, the \<^verbatim>\<open>URL\<close>
  constructor (\<open>None\<close> where it throws), the engine's \<^verbatim>\<open>toLowerCase\<close> and \<^verbatim>\<open>trim\<close>,
  the outcome of the message round trip to the content script (\<open>Inl\<close> the message of the
  rejection), the remote service (its answer to the \<open>n\<close>-th request the popup issues), the
  clock (the value of the \<open>n\<close>-th reading), the text of the label input, and the outcome of
  calling \<^verbatim>\<open>forceRefreshAllDisplays\<close>, a function that \<^verbatim>\<open>retryFailedOperation\<close> calls and
  no script of the extension declares (\<open>Some\<close> the message of what the call throws, \<open>None\<close>
  if it returns).
\<close>

record browser =
  active_tabs :: "tab list"
  parse_URL :: "string \<Rightarrow> url option"
  toLowerCase :: "string \<Rightarrow> string"
  trim :: "string \<Rightarrow> string"
  page_reply :: "string + page_data"
  server :: "nat \<Rightarrow> request \<Rightarrow> fetch_result"
  clock :: "nat \<Rightarrow> nat"
  labelInput_value :: string
  forceRefreshAllDisplays :: "string option"

text \<open>
  What the popup changes: \<^verbatim>\<open>chrome.storage.local\<close>, the requests it has sent (in the order
  of sending) and the number of clock readings it has taken.  The DOM (status line, progress
  bar, the rendered lists) is left out.
\<close>

record state =
  local_storage :: "string \<rightharpoonup> stored"
  requests :: "request list"
  clock_reads :: nat

definition Date_now :: "browser \<Rightarrow> state \<Rightarrow> nat \<times> state" where
  "Date_now b s = (clock b (clock_reads s), s\<lparr>clock_reads := Suc (clock_reads s)\<rparr>)"

definition fetch :: "browser \<Rightarrow> request \<Rightarrow> state \<Rightarrow> fetch_result \<times> state" where
  "fetch b rq s = (server b (length (requests s)) rq, s\<lparr>requests := requests s @ [rq]\<rparr>)"

text \<open>\<^verbatim>\<open>new URL(x)\<close>: it throws on \<^verbatim>\<open>undefined\<close> and on the empty string.\<close>

definition new_URL :: "browser \<Rightarrow> string option \<Rightarrow> url option" where
  "new_URL b x = (case x of None \<Rightarrow> None | Some u \<Rightarrow> if u = [] then None else parse_URL b u)"


section \<open>storage-utils.js\<close>

definition getCurrentInstanceId :: "browser \<Rightarrow> string + string" where
  "getCurrentInstanceId b =
     (case active_tabs b of
        [] \<Rightarrow> Inl ''Could not determine current instance''
      | t # _ \<Rightarrow>
          (case tab_url t of
             None \<Rightarrow> Inl ''Could not determine current instance''
           | Some u \<Rightarrow>
               if u = [] then Inl ''Could not determine current instance''
               else (case new_URL b (Some u) of
                       None \<Rightarrow> Inl ''Invalid URL format''
                     | Some parsed \<Rightarrow> Inr (protocol parsed @ ''//'' @ host parsed))))"

definition createInstanceKey :: "string \<Rightarrow> string \<Rightarrow> string" where
  "createInstanceKey baseKey instanceId =
     (let sanitized = map (\<lambda>c. if isAlnum c then c else CHR ''_'') instanceId
      in baseKey @ ''_'' @ sanitized)"

text \<open>The body of the \<^verbatim>\<open>try\<close> block of \<^verbatim>\<open>getInstanceData\<close>, \<open>Inl\<close> what it throws.\<close>

definition getInstanceData_try :: "browser \<Rightarrow> string \<Rightarrow> stored \<Rightarrow> state \<Rightarrow> string + stored" where
  "getInstanceData_try b baseKey defaultValue s =
     (case getCurrentInstanceId b of
        Inl e \<Rightarrow> Inl e
      | Inr instanceId \<Rightarrow>
          (case local_storage s (createInstanceKey baseKey instanceId) of
             None \<Rightarrow> Inr defaultValue
           | Some v \<Rightarrow> Inr v))"

text \<open>
  \<^verbatim>\<open>getInstanceData\<close>: its \<^verbatim>\<open>catch\<close> returns the default, so the call never rejects.
  (Every stored value is an object or an array, hence truthy in \<^verbatim>\<open>result[key] || defaultValue\<close>.)
\<close>

definition getInstanceData :: "browser \<Rightarrow> string \<Rightarrow> stored \<Rightarrow> state \<Rightarrow> stored" where
  "getInstanceData b baseKey defaultValue s =
     (case getInstanceData_try b baseKey defaultValue s of
        Inl e \<Rightarrow> defaultValue
      | Inr v \<Rightarrow> v)"

text \<open>\<^verbatim>\<open>setInstanceData\<close>: its \<^verbatim>\<open>catch\<close> throws the error again.\<close>

definition setInstanceData :: "browser \<Rightarrow> string \<Rightarrow> stored \<Rightarrow> state \<Rightarrow> (string + unit) \<times> state" where
  "setInstanceData b baseKey v s =
     (case getCurrentInstanceId b of
        Inl e \<Rightarrow> (Inl e, s)
      | Inr instanceId \<Rightarrow>
          (Inr (), s\<lparr>local_storage := (local_storage s)(createInstanceKey baseKey instanceId \<mapsto> v)\<rparr>))"


section \<open>popup.js: talking to the page and to the remote service\<close>

text \<open>
  \<^verbatim>\<open>getPhotoPrismData\<close>.  The texts that the function wraps around the errors of the message
  round trip are part of \<open>page_reply\<close>.
\<close>

definition getPhotoPrismData :: "browser \<Rightarrow> string + page_data" where
  "getPhotoPrismData b =
     (case active_tabs b of
        [] \<Rightarrow> Inl ''Could not find active tab.''
      | t # _ \<Rightarrow> page_reply b)"

text \<open>
  The first lines of \<^verbatim>\<open>addLabel\<close>, \<^verbatim>\<open>removeLabel\<close> and (after a cache miss) \<^verbatim>\<open>getLabelId\<close>:
  \<^verbatim>\<open>new URL(tabs[0].url)\<close> and \<^verbatim>\<open>baseUrl\<close>.  They stand before the \<^verbatim>\<open>try\<close>, so what they
  throw (a \<^verbatim>\<open>TypeError\<close>) is not wrapped.
\<close>

definition TypeError_no_tab :: string where
  "TypeError_no_tab = ''Cannot read properties of undefined''"

definition TypeError_invalid_URL :: string where
  "TypeError_invalid_URL = ''Invalid URL''"

definition SyntaxError_json :: string where
  "SyntaxError_json = ''Unexpected end of JSON input''"

definition currentBaseUrl :: "browser \<Rightarrow> string + string" where
  "currentBaseUrl b =
     (case active_tabs b of
        [] \<Rightarrow> Inl TypeError_no_tab
      | t # _ \<Rightarrow>
          (case new_URL b (tab_url t) of
             None \<Rightarrow> Inl TypeError_invalid_URL
           | Some currentUrl \<Rightarrow> Inr (protocol currentUrl @ ''//'' @ host currentUrl)))"

definition addLabel_request :: "string \<Rightarrow> string \<Rightarrow> string \<Rightarrow> string \<Rightarrow> request" where
  "addLabel_request baseUrl uid labelName tok =
     \<lparr>req_method = POST, address = baseUrl @ ''/api/v1/photos/'' @ uid @ ''/label'',
      auth_token = tok, body_Name = Some labelName\<rparr>"

definition addLabel ::
  "browser \<Rightarrow> string \<Rightarrow> string \<Rightarrow> string \<Rightarrow> state \<Rightarrow> (string + photo_details) \<times> state" where
  "addLabel b uid labelName tok s =
     (case currentBaseUrl b of
        Inl e \<Rightarrow> (Inl e, s)
      | Inr baseUrl \<Rightarrow>
          (let rq = addLabel_request baseUrl uid labelName tok in
           case fetch b rq s of
             (NetworkError m, s') \<Rightarrow>
               (Inl (''Failed to add label to '' @ address rq @ '': '' @ m), s')
           | (Response r, s') \<Rightarrow>
               if \<not> ok r
               then (Inl (''Failed to add label to '' @ address rq @ '': '' @
                          ''API Error: '' @ toString (status r) @ '' - '' @ body_text r), s')
               else (case json r of
                       None \<Rightarrow> (Inl SyntaxError_json, s')
                     | Some j \<Rightarrow> (Inr j, s'))))"

text \<open>
  What \<^verbatim>\<open>getLabelId\<close> returns.  The label cache is a plain object, so the lookup
  \<^verbatim>\<open>labelCache[labelName]\<close> finds, behind the entries of the cache, the members that every
  object inherits from \<^verbatim>\<open>Object.prototype\<close>: for such a name the function returns the
  inherited member, a function or (for \<^verbatim>\<open>__proto__\<close>) an object, and not a number.
  \<open>label_text\<close> is what the template \<^verbatim>\<open>`${labelId}`\<close> makes of the value.
\<close>

datatype label_ref = Number nat | Inherited string

definition Object_prototype_members :: "string list" where
  "Object_prototype_members =
     [''constructor'', ''__defineGetter__'', ''__defineSetter__'', ''hasOwnProperty'',
      ''__lookupGetter__'', ''__lookupSetter__'', ''isPrototypeOf'', ''propertyIsEnumerable'',
      ''toString'', ''valueOf'', ''__proto__'', ''toLocaleString'']"

fun label_text :: "label_ref \<Rightarrow> string" where
  "label_text (Number n) = toString n"
| "label_text (Inherited name) =
     (if name = ''__proto__'' then ''[object Object]''
      else ''function '' @ (if name = ''constructor'' then ''Object'' else name) @
           ''() { [native code] }'')"

definition removeLabel_request :: "string \<Rightarrow> string \<Rightarrow> label_ref \<Rightarrow> string \<Rightarrow> request" where
  "removeLabel_request baseUrl uid labelId tok =
     \<lparr>req_method = DELETE,
      address = baseUrl @ ''/api/v1/photos/'' @ uid @ ''/label/'' @ label_text labelId,
      auth_token = tok, body_Name = None\<rparr>"

definition removeLabel ::
  "browser \<Rightarrow> string \<Rightarrow> label_ref \<Rightarrow> string \<Rightarrow> state \<Rightarrow> (string + photo_details) \<times> state" where
  "removeLabel b uid labelId tok s =
     (case currentBaseUrl b of
        Inl e \<Rightarrow> (Inl e, s)
      | Inr baseUrl \<Rightarrow>
          (case fetch b (removeLabel_request baseUrl uid labelId tok) s of
             (NetworkError m, s') \<Rightarrow> (Inl (''Failed to remove label: '' @ m), s')
           | (Response r, s') \<Rightarrow>
               if \<not> ok r \<and> status r \<noteq> 404
               then (Inl (''Failed to remove label: '' @
                          ''API Error: '' @ toString (status r) @ '' - '' @ body_text r), s')
               else (case json r of
                       None \<Rightarrow> (Inl SyntaxError_json, s')
                     | Some j \<Rightarrow> (Inr j, s'))))"

text \<open>
  \<^verbatim>\<open>getLabelId\<close>.  The cache is read with the label name as it was typed.  An entry of the
  cache counts when its value is truthy, that is a number other than 0 (an entry with the
  value 0 hides an inherited member of the same name); where the cache has no entry, an
  inherited member of that name counts, and it is always truthy.
\<close>

definition getLabelId_request :: "string \<Rightarrow> string \<Rightarrow> string \<Rightarrow> request" where
  "getLabelId_request baseUrl firstUid tok =
     \<lparr>req_method = GET, address = baseUrl @ ''/api/v1/photos/'' @ firstUid,
      auth_token = tok, body_Name = None\<rparr>"

definition label_matches :: "browser \<Rightarrow> string \<Rightarrow> photo_label \<Rightarrow> bool" where
  "label_matches b labelName l =
     (toLowerCase b (Name l) = toLowerCase b labelName \<or>
      toLowerCase b (Slug l) = toLowerCase b labelName)"

definition cache_hit :: "(string \<rightharpoonup> nat) \<Rightarrow> string \<Rightarrow> label_ref option" where
  "cache_hit labelCache labelName =
     (case labelCache labelName of
        None \<Rightarrow>
          if labelName \<in> set Object_prototype_members then Some (Inherited labelName) else None
      | Some labelId \<Rightarrow> if labelId = 0 then None else Some (Number labelId))"

definition getLabelId ::
  "browser \<Rightarrow> string \<Rightarrow> string \<Rightarrow> string \<Rightarrow> state \<Rightarrow> (string + label_ref) \<times> state" where
  "getLabelId b labelName firstUid tok s =
     (let labelCache = as_cache (getInstanceData b ''labelCache'' (LabelCache Map.empty) s) in
      case cache_hit labelCache labelName of
        Some labelId \<Rightarrow> (Inr labelId, s)
      | None \<Rightarrow>
          (case currentBaseUrl b of
             Inl e \<Rightarrow> (Inl e, s)
           | Inr baseUrl \<Rightarrow>
               (case fetch b (getLabelId_request baseUrl firstUid tok) s of
                  (NetworkError m, s') \<Rightarrow> (Inl (''Failed to get label ID: '' @ m), s')
                | (Response r, s') \<Rightarrow>
                    if \<not> ok r
                    then (Inl (''Failed to get label ID: '' @
                               ''Failed to fetch photo details for label ID.''), s')
                    else
                      (case json r of
                         None \<Rightarrow> (Inl (''Failed to get label ID: '' @ SyntaxError_json), s')
                       | Some photoDetails \<Rightarrow>
                           (case (case Labels photoDetails of
                                    None \<Rightarrow> None
                                  | Some ls \<Rightarrow> find (label_matches b labelName) ls) of
                              None \<Rightarrow>
                                (Inl (''Failed to get label ID: '' @ ''Label '' @ [CHR 0x22] @
                                      labelName @ [CHR 0x22] @
                                      '' not found on the photo, cannot determine its ID.''), s')
                            | Some label \<Rightarrow>
                                (let labelId = ID label in
                                 case setInstanceData b ''labelCache''
                                        (LabelCache (labelCache(labelName \<mapsto> labelId))) s' of
                                   (Inl e, s'') \<Rightarrow> (Inl (''Failed to get label ID: '' @ e), s'')
                                 | (Inr _, s'') \<Rightarrow> (Inr (Number labelId), s'')))))))"


section \<open>popup.js: the batch\<close>

text \<open>
  The variables that the handlers of \<^verbatim>\<open>batchProcess\<close> share.  The function returns
  \<^verbatim>\<open>{successCount, failedCount, failedUids}\<close>; \<open>processedCount\<close> only feeds the progress bar.
\<close>

record batch_counters =
  processedCount :: nat
  successCount :: nat
  failedCount :: nat
  failedUids :: "string list"

text \<open>One call settles: its \<^verbatim>\<open>then\<close> or its \<^verbatim>\<open>catch\<close> handler runs, then its \<^verbatim>\<open>finally\<close> handler.\<close>

definition settle :: "string \<Rightarrow> string + 'a \<Rightarrow> batch_counters \<Rightarrow> batch_counters" where
  "settle uid outcome c =
     (let c' = (case outcome of
                  Inr res \<Rightarrow> c\<lparr>successCount := successCount c + 1\<rparr>
                | Inl err \<Rightarrow> c\<lparr>failedCount := failedCount c + 1,
                               failedUids := failedUids c @ [uid]\<rparr>)
      in c'\<lparr>processedCount := processedCount c' + 1\<rparr>)"

text \<open>\<^verbatim>\<open>uids.map(uid => apiFn(uid) ...)\<close>: every call is started, in the order of the identifiers.\<close>

fun launch ::
  "(string \<Rightarrow> state \<Rightarrow> (string + 'a) \<times> state) \<Rightarrow> string list \<Rightarrow> state \<Rightarrow> (string + 'a) list \<times> state" where
  "launch apiFn [] s = ([], s)"
| "launch apiFn (uid # rest) s =
     (let (outcome, s1) = apiFn uid s;
          (outcomes, s2) = launch apiFn rest s1
      in (outcome # outcomes, s2))"

text \<open>
  The calls settle in an order that the network chooses: \<open>order\<close> lists the positions of the
  calls in the order of their completion.  A promise settles once, so a position that is not
  pending is passed over; a position that \<open>order\<close> never names is a call that never settles.
\<close>

fun settle_all ::
  "string list \<Rightarrow> (string + 'a) list \<Rightarrow> nat list \<Rightarrow> batch_counters \<times> nat list \<Rightarrow> batch_counters \<times> nat list" where
  "settle_all us outcomes [] cp = cp"
| "settle_all us outcomes (i # order) (c, pending) =
     (if i \<in> set pending
      then settle_all us outcomes order (settle (us ! i) (outcomes ! i) c, remove1 i pending)
      else settle_all us outcomes order (c, pending))"

text \<open>
  \<^verbatim>\<open>batchProcess\<close>.  \<^verbatim>\<open>await Promise.all(promises)\<close> resumes when no call is pending; each
  promise of the list ends in a \<^verbatim>\<open>catch\<close>, so none of them rejects.  \<open>None\<close>: the function does
  not return.
\<close>

definition batchProcess ::
  "nat list \<Rightarrow> string list \<Rightarrow> (string \<Rightarrow> state \<Rightarrow> (string + 'a) \<times> state) \<Rightarrow> state \<Rightarrow> (batch_counters \<times> state) option" where
  "batchProcess order us apiFn s =
     (let total = length us;
          (outcomes, s') = launch apiFn us s;
          (c, pending) = settle_all us outcomes order
             (\<lparr>processedCount = 0, successCount = 0, failedCount = 0, failedUids = []\<rparr>, [0..<total])
      in if pending = [] then Some (c, s') else None)"

text \<open>
  The choice between the two actions, written out twice in the source (in \<^verbatim>\<open>handleAction\<close>
  and in \<^verbatim>\<open>retryFailedOperation\<close>): an "add" runs the batch with \<^verbatim>\<open>addLabel\<close>; a "remove"
  first awaits \<^verbatim>\<open>getLabelId(labelName, uids[0], token)\<close>, then runs the batch with
  \<^verbatim>\<open>removeLabel\<close>.  \<open>Inl\<close>: the message of what was thrown.
\<close>

definition first_uid :: "string list \<Rightarrow> string" where
  "first_uid us = (case us of [] \<Rightarrow> ''undefined'' | u # _ \<Rightarrow> u)"

definition run_action ::
  "browser \<Rightarrow> action \<Rightarrow> string \<Rightarrow> string list \<Rightarrow> string \<Rightarrow> nat list \<Rightarrow> state \<Rightarrow> ((string + batch_counters) \<times> state) option" where
  "run_action b act labelName us tok order s =
     (case act of
        Add \<Rightarrow>
          (case batchProcess order us (\<lambda>uid. addLabel b uid labelName tok) s of
             None \<Rightarrow> None
           | Some (result, s') \<Rightarrow> Some (Inr result, s'))
      | Remove \<Rightarrow>
          (case getLabelId b labelName (first_uid us) tok s of
             (Inl e, s') \<Rightarrow> Some (Inl e, s')
           | (Inr labelId, s') \<Rightarrow>
               (case batchProcess order us (\<lambda>uid. removeLabel b uid labelId tok) s' of
                  None \<Rightarrow> None
                | Some (result, s'') \<Rightarrow> Some (Inr result, s''))))"


section \<open>popup.js: label lists, failed operations, execution history\<close>

text \<open>What the instance holds under the four list keys.\<close>

definition recentLabels_of :: "browser \<Rightarrow> state \<Rightarrow> string list" where
  "recentLabels_of b s = as_labels (getInstanceData b ''recentLabels'' (LabelList []) s)"

definition allLabels_of :: "browser \<Rightarrow> state \<Rightarrow> string list" where
  "allLabels_of b s = as_labels (getInstanceData b ''allLabels'' (LabelList []) s)"

definition failedOperations_of :: "browser \<Rightarrow> state \<Rightarrow> failed_operation list" where
  "failedOperations_of b s = as_failed (getInstanceData b ''failedOperations'' (FailedOperations []) s)"

definition executionHistory_of :: "browser \<Rightarrow> state \<Rightarrow> execution_result list" where
  "executionHistory_of b s = as_history (getInstanceData b ''executionHistory'' (ExecutionHistory []) s)"

definition labelCache_of :: "browser \<Rightarrow> state \<Rightarrow> (string \<rightharpoonup> nat)" where
  "labelCache_of b s = as_cache (getInstanceData b ''labelCache'' (LabelCache Map.empty) s)"

definition addToRecentLabels :: "browser \<Rightarrow> string \<Rightarrow> state \<Rightarrow> (string + unit) \<times> state" where
  "addToRecentLabels b labelName s =
     (if trim b labelName = [] then (Inr (), s)
      else
        (let normalizedLabel = toLowerCase b (trim b labelName);
             recentLabels = recentLabels_of b s;
             allLabels = allLabels_of b s;
             recentLabels = filter (\<lambda>label. toLowerCase b label \<noteq> normalizedLabel) recentLabels;
             recentLabels = normalizedLabel # recentLabels;
             recentLabels = take 20 recentLabels;
             existsInAll = list_ex (\<lambda>label. toLowerCase b label = normalizedLabel) allLabels;
             allLabels = (if \<not> existsInAll then sort (allLabels @ [normalizedLabel]) else allLabels)
         in case setInstanceData b ''recentLabels'' (LabelList recentLabels) s of
              (Inl e, s1) \<Rightarrow> (Inl e, s1)
            | (Inr _, s1) \<Rightarrow> setInstanceData b ''allLabels'' (LabelList allLabels) s1))"

definition same_operation :: "browser \<Rightarrow> action \<Rightarrow> string \<Rightarrow> failed_operation \<Rightarrow> bool" where
  "same_operation b act labelName operation =
     (toLowerCase b (op_labelName operation) = toLowerCase b labelName \<and>
      op_action operation = act)"

definition removeFailedOperation ::
  "browser \<Rightarrow> action \<Rightarrow> string \<Rightarrow> state \<Rightarrow> (string + unit) \<times> state" where
  "removeFailedOperation b act labelName s =
     (let failedOperations = failedOperations_of b s;
          failedOperations = filter (\<lambda>operation. \<not> same_operation b act labelName operation) failedOperations
      in setInstanceData b ''failedOperations'' (FailedOperations failedOperations) s)"

definition saveFailedOperation ::
  "browser \<Rightarrow> failed_operation \<Rightarrow> state \<Rightarrow> (string + unit) \<times> state" where
  "saveFailedOperation b failedOperation s =
     (let failedOperations = failedOperations_of b s;
          existingIndex = findIndex
             (same_operation b (op_action failedOperation) (op_labelName failedOperation))
             failedOperations;
          failedOperations =
             (case existingIndex of
                Some i \<Rightarrow> failedOperations[i := failedOperation]
              | None \<Rightarrow> failedOperation # failedOperations);
          failedOperations = take 20 failedOperations
      in setInstanceData b ''failedOperations'' (FailedOperations failedOperations) s)"

definition saveExecutionResult ::
  "browser \<Rightarrow> execution_result \<Rightarrow> state \<Rightarrow> (string + unit) \<times> state" where
  "saveExecutionResult b executionResult s =
     (let (now, s1) = Date_now b s;
          resultWithId = executionResult\<lparr>ex_id := Some (toString now)\<rparr>;
          executionHistory = executionHistory_of b s1;
          executionHistory = resultWithId # executionHistory;
          executionHistory = take 50 executionHistory
      in setInstanceData b ''executionHistory'' (ExecutionHistory executionHistory) s1)"


section \<open>popup.js: handleAction\<close>

text \<open>The failure group that \<^verbatim>\<open>handleAction\<close> hands to \<^verbatim>\<open>saveFailedOperation\<close>.\<close>

definition failure_report :: "action \<Rightarrow> string \<Rightarrow> string list \<Rightarrow> nat \<Rightarrow> failed_operation" where
  "failure_report act labelName failed now =
     \<lparr>op_action = act, op_labelName = labelName, op_failedUids = failed,
      op_timestamp = now, op_retryCount = 0\<rparr>"

text \<open>
  The \<^verbatim>\<open>try\<close> block of \<^verbatim>\<open>handleAction\<close>.  The result carries \<^verbatim>\<open>executionResult\<close> as the
  block has left it, for the \<^verbatim>\<open>catch\<close>; \<open>Inl\<close> is the message of what the block threw.
\<close>

definition handleAction_try ::
  "browser \<Rightarrow> action \<Rightarrow> string \<Rightarrow> nat \<Rightarrow> execution_result \<Rightarrow> nat list \<Rightarrow> state \<Rightarrow>
     ((string + unit) \<times> execution_result \<times> state) option" where
  "handleAction_try b act labelName startTime executionResult order s =
     (case getPhotoPrismData b of
        Inl e \<Rightarrow> Some (Inl e, executionResult, s)
      | Inr d \<Rightarrow>
          if uids d = []
          then Some (Inl ''No photos selected. Please select photos in PhotoPrism first.'',
                     executionResult, s)
          else
            (let executionResult = executionResult\<lparr>ex_totalCount := length (uids d)\<rparr> in
             case run_action b act labelName (uids d) (token d) order s of
               None \<Rightarrow> None
             | Some (Inl e, s1) \<Rightarrow> Some (Inl e, executionResult, s1)
             | Some (Inr result, s1) \<Rightarrow>
                 (let executionResult = executionResult
                        \<lparr>ex_successCount := successCount result,
                         ex_failedCount := failedCount result,
                         ex_failedUids := failedUids result\<rparr>;
                      (now, s2) = Date_now b s1;
                      executionResult = executionResult\<lparr>ex_duration := int now - int startTime\<rparr>
                  in case saveExecutionResult b executionResult s2 of
                       (Inl e, s3) \<Rightarrow> Some (Inl e, executionResult, s3)
                     | (Inr _, s3) \<Rightarrow>
                         (case (if ex_failedUids executionResult \<noteq> []
                                then (let (now, s4) = Date_now b s3
                                      in saveFailedOperation b
                                           (failure_report act labelName
                                              (ex_failedUids executionResult) now) s4)
                                else removeFailedOperation b act (toLowerCase b labelName) s3) of
                            (Inl e, s5) \<Rightarrow> Some (Inl e, executionResult, s5)
                          | (Inr _, s5) \<Rightarrow>
                              (case addToRecentLabels b labelName s5 of
                                 (Inl e, s6) \<Rightarrow> Some (Inl e, executionResult, s6)
                               | (Inr _, s6) \<Rightarrow> Some (Inr (), executionResult, s6))))))"

text \<open>
  \<^verbatim>\<open>handleAction\<close>.  \<open>None\<close>: the invocation does not return (its batch never settles);
  \<open>Some (Inl e, s)\<close>: it rejects with message \<open>e\<close>, which happens when \<^verbatim>\<open>saveExecutionResult\<close>
  throws inside the \<^verbatim>\<open>catch\<close>.
\<close>

definition handleAction ::
  "browser \<Rightarrow> action \<Rightarrow> nat list \<Rightarrow> state \<Rightarrow> ((string + unit) \<times> state) option" where
  "handleAction b act order s =
     (let labelName = trim b (labelInput_value b) in
      if labelName = [] then Some (Inr (), s)
      else
        (let (startTime, s1) = Date_now b s;
             (startDate, s2) = Date_now b s1;
             executionResult =
               \<lparr>ex_action = act, ex_labelName = labelName, ex_totalCount = 0,
                ex_successCount = 0, ex_failedCount = 0, ex_failedUids = [],
                ex_startTime = startDate, ex_duration = 0, ex_error = None,
                ex_isRetry = False, ex_id = None\<rparr>
         in case handleAction_try b act labelName startTime executionResult order s2 of
              None \<Rightarrow> None
            | Some (Inr _, executionResult, s3) \<Rightarrow> Some (Inr (), s3)
            | Some (Inl e, executionResult, s3) \<Rightarrow>
                (let executionResult = executionResult\<lparr>ex_error := Some e\<rparr>;
                     (now, s4) = Date_now b s3;
                     executionResult = executionResult\<lparr>ex_duration := int now - int startTime\<rparr>
                 in Some (saveExecutionResult b executionResult s4))))"


section \<open>popup.js: retryFailedOperation\<close>

text \<open>
  The \<^verbatim>\<open>try\<close> block of \<^verbatim>\<open>retryFailedOperation\<close>.  \<open>failedOperations\<close> is the array that the
  function read at its start; the block changes it in place and writes it back.
\<close>

definition retry_try ::
  "browser \<Rightarrow> failed_operation list \<Rightarrow> nat \<Rightarrow> execution_result \<Rightarrow> nat list \<Rightarrow> state \<Rightarrow>
     ((string + unit) \<times> execution_result \<times> state) option" where
  "retry_try b failedOperations index retryResult order s =
     (let operation = failedOperations ! index in
      case getPhotoPrismData b of
        Inl e \<Rightarrow> Some (Inl e, retryResult, s)
      | Inr d \<Rightarrow>
          (case run_action b (op_action operation) (op_labelName operation)
                  (op_failedUids operation) (token d) order s of
             None \<Rightarrow> None
           | Some (Inl e, s1) \<Rightarrow> Some (Inl e, retryResult, s1)
           | Some (Inr result, s1) \<Rightarrow>
               (let retryResult = retryResult
                      \<lparr>ex_successCount := successCount result,
                       ex_failedCount := failedCount result,
                       ex_failedUids := failedUids result\<rparr>
                in case (if ex_failedUids retryResult = []
                         then setInstanceData b ''failedOperations''
                                (FailedOperations (splice1 index failedOperations)) s1
                         else (let (now, s2) = Date_now b s1;
                                   updated = operation
                                     \<lparr>op_failedUids := ex_failedUids retryResult,
                                      op_retryCount := op_retryCount operation + 1,
                                      op_timestamp := now\<rparr>
                               in setInstanceData b ''failedOperations''
                                    (FailedOperations (failedOperations[index := updated])) s2)) of
                       (Inl e, s3) \<Rightarrow> Some (Inl e, retryResult, s3)
                     | (Inr _, s3) \<Rightarrow>
                         (case forceRefreshAllDisplays b of
                            Some e \<Rightarrow> Some (Inl e, retryResult, s3)
                          | None \<Rightarrow> Some (Inr (), retryResult, s3)))))"

text \<open>
  \<^verbatim>\<open>retryFailedOperation\<close>.  The \<^verbatim>\<open>catch\<close> stores the message; the \<^verbatim>\<open>finally\<close> saves the
  result of the retry whatever happened.
\<close>

definition retryFailedOperation ::
  "browser \<Rightarrow> nat \<Rightarrow> nat list \<Rightarrow> state \<Rightarrow> ((string + unit) \<times> state) option" where
  "retryFailedOperation b index order s =
     (let failedOperations = failedOperations_of b s in
      if index \<ge> length failedOperations then Some (Inr (), s)
      else
        (let operation = failedOperations ! index in
         if op_failedUids operation = [] then Some (Inr (), s)
         else
           (let (startTime, s1) = Date_now b s;
                (startDate, s2) = Date_now b s1;
                retryResult =
                  \<lparr>ex_action = op_action operation, ex_labelName = op_labelName operation,
                   ex_totalCount = length (op_failedUids operation),
                   ex_successCount = 0, ex_failedCount = 0, ex_failedUids = [],
                   ex_startTime = startDate, ex_duration = 0, ex_error = None,
                   ex_isRetry = True, ex_id = None\<rparr>
            in case retry_try b failedOperations index retryResult order s2 of
                 None \<Rightarrow> None
               | Some (thrown, retryResult, s3) \<Rightarrow>
                   (let retryResult =
                          (case thrown of
                             Inl e \<Rightarrow> retryResult\<lparr>ex_error := Some e\<rparr>
                           | Inr _ \<Rightarrow> retryResult);
                        (now, s4) = Date_now b s3;
                        retryResult = retryResult\<lparr>ex_duration := int now - int startTime\<rparr>
                    in Some (saveExecutionResult b retryResult s4)))))"


section \<open>The failure groups and their keys\<close>

text \<open>
  The key of a failure group: the action and the label name in lower case, as the engine's
  \<^verbatim>\<open>toLowerCase\<close> gives it.  The store is in
  order when no two groups have the same key and there are at most 20 groups.
\<close>

definition group_key :: "browser \<Rightarrow> failed_operation \<Rightarrow> action \<times> string" where
  "group_key b operation = (op_action operation, toLowerCase b (op_labelName operation))"

definition store_invariant :: "browser \<Rightarrow> failed_operation list \<Rightarrow> bool" where
  "store_invariant b groups = (distinct (map (group_key b) groups) \<and> length groups \<le> 20)"


section \<open>A browser and some states to run the definitions on\<close>

text \<open>
  The active tab shows a PhotoPrism instance; three photos are selected.  The service accepts
  every "add" but the one for photo \<open>x3\<close>, knows the label "Cat" (ID 7) on every photo, and
  answers every "remove" with 404 and a JSON body.
\<close>

definition example_parse :: "string \<Rightarrow> url option" where
  "example_parse u =
     (if u = ''https://photos.example.com/library/browse''
      then Some \<lparr>protocol = ''https:'', host = ''photos.example.com''\<rparr>
      else None)"

definition example_server :: "nat \<Rightarrow> request \<Rightarrow> fetch_result" where
  "example_server n rq =
     (case req_method rq of
        GET \<Rightarrow> Response \<lparr>status = 200, body_text = [],
                 json = Some \<lparr>Labels = Some [\<lparr>ID = 7, Name = ''Cat'', Slug = ''cat''\<rparr>]\<rparr>\<rparr>
      | DELETE \<Rightarrow> Response \<lparr>status = 404, body_text = ''not found'',
                 json = Some \<lparr>Labels = None\<rparr>\<rparr>
      | POST \<Rightarrow>
          if address rq = ''https://photos.example.com/api/v1/photos/x3/label''
          then Response \<lparr>status = 500, body_text = ''boom'', json = None\<rparr>
          else Response \<lparr>status = 200, body_text = [], json = Some \<lparr>Labels = None\<rparr>\<rparr>)"

definition example_clock :: "nat \<Rightarrow> nat" where
  "example_clock n = 1000 + n"

definition example_browser :: browser where
  "example_browser =
     \<lparr>active_tabs = [\<lparr>tab_url = Some ''https://photos.example.com/library/browse''\<rparr>],
      parse_URL = example_parse,
      toLowerCase = ascii_toLowerCase,
      trim = ascii_trim,
      page_reply = Inr \<lparr>uids = [''x1'', ''x2'', ''x3''], token = ''tok''\<rparr>,
      server = example_server,
      clock = example_clock,
      labelInput_value = ''dog'',
      forceRefreshAllDisplays = Some ''forceRefreshAllDisplays is not defined''\<rparr>"

text \<open>The same browser with no active tab.\<close>

definition no_tab_browser :: browser where
  "no_tab_browser = example_browser\<lparr>active_tabs := []\<rparr>"

definition example_key :: "string \<Rightarrow> string" where
  "example_key baseKey = createInstanceKey baseKey ''https://photos.example.com''"

definition empty_state :: state where
  "empty_state = \<lparr>local_storage = Map.empty, requests = [], clock_reads = 0\<rparr>"

text \<open>
  A history that is full: fifty records, all saved at clock reading 5; the one at the end
  is the record of a removal.
\<close>

definition old_result :: execution_result where
  "old_result =
     \<lparr>ex_action = Add, ex_labelName = ''cat'', ex_totalCount = 1, ex_successCount = 1,
      ex_failedCount = 0, ex_failedUids = [], ex_startTime = 3, ex_duration = 2,
      ex_error = None, ex_isRetry = False, ex_id = Some (toString 5)\<rparr>"

definition oldest_result :: execution_result where
  "oldest_result =
     \<lparr>ex_action = Remove, ex_labelName = ''bird'', ex_totalCount = 1, ex_successCount = 1,
      ex_failedCount = 0, ex_failedUids = [], ex_startTime = 3, ex_duration = 2,
      ex_error = None, ex_isRetry = False, ex_id = Some (toString 5)\<rparr>"

definition full_history_state :: state where
  "full_history_state =
     \<lparr>local_storage = [example_key ''executionHistory'' \<mapsto>
        ExecutionHistory (replicate 49 old_result @ [oldest_result])],
      requests = [], clock_reads = 0\<rparr>"

text \<open>The example browser with a clock that stands still for the length of two readings.\<close>

definition frozen_clock :: "nat \<Rightarrow> nat" where
  "frozen_clock n = 1000"

definition frozen_browser :: browser where
  "frozen_browser = example_browser\<lparr>clock := frozen_clock\<rparr>"

text \<open>A result as \<^verbatim>\<open>handleAction\<close> hands it to \<^verbatim>\<open>saveExecutionResult\<close>.\<close>

definition new_result :: execution_result where
  "new_result =
     \<lparr>ex_action = Add, ex_labelName = ''dog'', ex_totalCount = 2, ex_successCount = 2,
      ex_failedCount = 0, ex_failedUids = [], ex_startTime = 1000, ex_duration = 4,
      ex_error = None, ex_isRetry = False, ex_id = None\<rparr>"


text \<open>A failure group that has been retried twice.\<close>

definition retried_group :: failed_operation where
  "retried_group =
     \<lparr>op_action = Add, op_labelName = ''cat'', op_failedUids = [''x3''],
      op_timestamp = 900, op_retryCount = 2\<rparr>"


text \<open>A service in front of which something answers every request with a plain 404 page.\<close>

definition plain404_server :: "nat \<Rightarrow> request \<Rightarrow> fetch_result" where
  "plain404_server n rq = Response \<lparr>status = 404, body_text = ''Not Found'', json = None\<rparr>"

definition plain404_browser :: browser where
  "plain404_browser = example_browser\<lparr>server := plain404_server\<rparr>"


definition dog_group :: failed_operation where
  "dog_group =
     \<lparr>op_action = Remove, op_labelName = ''dog'', op_failedUids = [''x1''],
      op_timestamp = 900, op_retryCount = 0\<rparr>"

definition dog_state :: state where
  "dog_state =
     \<lparr>local_storage = [example_key ''failedOperations'' \<mapsto> FailedOperations [dog_group]],
      requests = [], clock_reads = 0\<rparr>"

text \<open>
  The example browser with the label "cat", with the label "Cat", and with the label
  "constructor" typed into the input.
\<close>

definition cat_browser :: browser where
  "cat_browser = example_browser\<lparr>labelInput_value := ''cat''\<rparr>"

definition Cat_browser :: browser where
  "Cat_browser = example_browser\<lparr>labelInput_value := ''Cat''\<rparr>"

definition constructor_browser :: browser where
  "constructor_browser = example_browser\<lparr>labelInput_value := ''constructor''\<rparr>"

text \<open>
  Stores of three failure groups: the group in the middle is the one that has been retried
  twice, or the one whose "add" the service now accepts.
\<close>

definition bird_group :: failed_operation where
  "bird_group =
     \<lparr>op_action = Add, op_labelName = ''bird'', op_failedUids = [''x2''],
      op_timestamp = 950, op_retryCount = 1\<rparr>"

definition removal_group :: failed_operation where
  "removal_group =
     \<lparr>op_action = Remove, op_labelName = ''cat'', op_failedUids = [''x1'', ''x2''],
      op_timestamp = 800, op_retryCount = 4\<rparr>"

definition three_groups_state :: state where
  "three_groups_state =
     \<lparr>local_storage = [example_key ''failedOperations'' \<mapsto>
        FailedOperations [bird_group, retried_group, removal_group]],
      requests = [], clock_reads = 0\<rparr>"





section \<open>Lemmas: strings and the instance store\<close>

lemma toString_nonempty: "toString n \<noteq> []"
  by (subst toString.simps) simp

lemma digit_inj: "a < 10 \<Longrightarrow> b < 10 \<Longrightarrow> digit a = digit b \<Longrightarrow> a = b"
proof -
  have "\<forall>a<10. \<forall>b<10. digit a = digit b \<longrightarrow> a = b"
    by (simp add: digit_def All_less_Suc numeral_nat)
  then show "a < 10 \<Longrightarrow> b < 10 \<Longrightarrow> digit a = digit b \<Longrightarrow> a = b" by blast
qed

lemma toString_small: "n < 10 \<Longrightarrow> toString n = [digit n]"
  by (subst toString.simps) simp

lemma toString_big: "\<not> n < 10 \<Longrightarrow> toString n = toString (n div 10) @ [digit (n mod 10)]"
  by (subst toString.simps) simp

lemma toString_big_length: "\<not> n < 10 \<Longrightarrow> length (toString n) \<ge> 2"
proof -
  assume a: "\<not> n < 10"
  obtain x xs where c: "toString (n div 10) = x # xs"
    using toString_nonempty [of "n div 10"] by (cases "toString (n div 10)") auto
  have "length (toString n) = length (toString (n div 10) @ [digit (n mod 10)])"
    by (subst toString_big [OF a]) (rule refl)
  also have "\<dots> = Suc (Suc (length xs))" unfolding c by simp
  finally show ?thesis by simp
qed


lemma divmod10_eq: "n div 10 = m div 10 \<Longrightarrow> n mod 10 = m mod 10 \<Longrightarrow> n = (m::nat)"
proof -
  assume a: "n div 10 = m div 10" and b: "n mod 10 = m mod 10"
  have "n = n div 10 * 10 + n mod 10" by simp
  also have "\<dots> = m div 10 * 10 + m mod 10" by (simp only: a b)
  also have "\<dots> = m" by simp
  finally show ?thesis .
qed

lemma toString_inj: "toString n = toString m \<Longrightarrow> n = m"
proof (induction n arbitrary: m rule: toString.induct)
  case (1 n)
  show ?case
  proof (cases "n < 10")
    case True
    note sn = toString_small [OF True]
    show ?thesis
    proof (cases "m < 10")
      case mt: True
      from "1.prems" have "[digit n] = [digit m]"
        unfolding sn toString_small [OF mt] .
      then have "digit n = digit m" by simp
      then show ?thesis by (rule digit_inj [OF True mt])
    next
      case False
      from "1.prems" have "length (toString m) = length [digit n]"
        unfolding sn by simp
      with toString_big_length [OF False] show ?thesis by simp
    qed
  next
    case False
    note bn = toString_big [OF False]
    show ?thesis
    proof (cases "m < 10")
      case True
      from "1.prems" have "length (toString n) = length [digit m]"
        unfolding toString_small [OF True] by simp
      with toString_big_length [OF False] show ?thesis by simp
    next
      case mf: False
      from "1.prems" have "toString (n div 10) @ [digit (n mod 10)] = toString (m div 10) @ [digit (m mod 10)]"
        by (subst (asm) bn, subst (asm) toString_big [OF mf])
      then have e: "toString (n div 10) = toString (m div 10)" and d: "digit (n mod 10) = digit (m mod 10)"
        by simp_all
      from "1.IH" [OF False e] have "n div 10 = m div 10" .
      moreover from d have "n mod 10 = m mod 10" by (intro digit_inj) simp_all
      ultimately show ?thesis by (rule divmod10_eq)
    qed
  qed
qed


lemma createInstanceKey_inj: "createInstanceKey k i = createInstanceKey k' i \<longleftrightarrow> k = k'"
  by (simp add: createInstanceKey_def)

lemma getInstanceData_resolved:
  "getCurrentInstanceId b = Inr i \<Longrightarrow>
   getInstanceData b k d s = (case local_storage s (createInstanceKey k i) of None \<Rightarrow> d | Some v \<Rightarrow> v)"
  by (simp add: getInstanceData_def getInstanceData_try_def split: option.splits)

lemma getInstanceData_unresolved:
  "getCurrentInstanceId b = Inl e \<Longrightarrow> getInstanceData b k d s = d"
  by (simp add: getInstanceData_def getInstanceData_try_def)

lemma getInstanceData_cong_storage:
  "local_storage s' = local_storage s \<Longrightarrow> getInstanceData b k d s' = getInstanceData b k d s"
  by (cases "getCurrentInstanceId b") (simp_all add: getInstanceData_def getInstanceData_try_def)

lemma getInstanceData_clock_reads [simp]:
  "getInstanceData b k d (s\<lparr>clock_reads := n\<rparr>) = getInstanceData b k d s"
  by (rule getInstanceData_cong_storage) simp

lemma getInstanceData_requests [simp]:
  "getInstanceData b k d (s\<lparr>requests := rs\<rparr>) = getInstanceData b k d s"
  by (rule getInstanceData_cong_storage) simp

lemma setInstanceData_resolved:
  "getCurrentInstanceId b = Inr i \<Longrightarrow>
   setInstanceData b k v s = (Inr (), s\<lparr>local_storage := (local_storage s)(createInstanceKey k i \<mapsto> v)\<rparr>)"
  by (simp add: setInstanceData_def)

lemma setInstanceData_unresolved:
  "getCurrentInstanceId b = Inl e \<Longrightarrow> setInstanceData b k v s = (Inl e, s)"
  by (simp add: setInstanceData_def)

lemma getInstanceData_upd:
  "getCurrentInstanceId b = Inr i \<Longrightarrow>
   getInstanceData b k d (S\<lparr>local_storage := m(createInstanceKey k' i \<mapsto> v)\<rparr>) =
     (if k = k' then v else getInstanceData b k d (S\<lparr>local_storage := m\<rparr>))"
  by (simp add: getInstanceData_resolved createInstanceKey_inj)

lemma getInstanceData_same [simp]:
  "getInstanceData b k d (S\<lparr>local_storage := local_storage s0\<rparr>) = getInstanceData b k d s0"
  by (rule getInstanceData_cong_storage) simp

lemma take_Cons_butlast: "length xs = Suc n \<Longrightarrow> take (Suc n) (x # xs) = x # butlast xs"
  by (simp add: butlast_conv_take)

lemma getCurrentInstanceId_messages:
  "getCurrentInstanceId b = Inl e \<Longrightarrow>
   e = ''Could not determine current instance'' \<or> e = ''Invalid URL format''"
  by (auto simp: getCurrentInstanceId_def split: list.splits option.splits if_splits)

lemma example_instance: "getCurrentInstanceId example_browser = Inr ''https://photos.example.com''"
  by (simp add: getCurrentInstanceId_def example_browser_def new_URL_def example_parse_def)

lemma no_tab_instance: "getCurrentInstanceId no_tab_browser = Inl ''Could not determine current instance''"
  by (simp add: getCurrentInstanceId_def example_browser_def no_tab_browser_def)

lemma full_history:
  "executionHistory_of example_browser full_history_state = replicate 49 old_result @ [oldest_result]"
  by (simp add: executionHistory_of_def getInstanceData_resolved [OF example_instance]
      full_history_state_def example_key_def)


section \<open>Lemmas: the stores, the batch and the label resolver\<close>

lemma failedOperations_of_upd:
  "getCurrentInstanceId b = Inr i \<Longrightarrow>
   failedOperations_of b (S\<lparr>local_storage := m(createInstanceKey k i \<mapsto> v)\<rparr>) =
     (if k = ''failedOperations'' then as_failed v
      else failedOperations_of b (S\<lparr>local_storage := m\<rparr>))"
  by (simp add: failedOperations_of_def getInstanceData_upd)

lemma executionHistory_of_upd:
  "getCurrentInstanceId b = Inr i \<Longrightarrow>
   executionHistory_of b (S\<lparr>local_storage := m(createInstanceKey k i \<mapsto> v)\<rparr>) =
     (if k = ''executionHistory'' then as_history v
      else executionHistory_of b (S\<lparr>local_storage := m\<rparr>))"
  by (simp add: executionHistory_of_def getInstanceData_upd)

lemma recentLabels_of_upd:
  "getCurrentInstanceId b = Inr i \<Longrightarrow>
   recentLabels_of b (S\<lparr>local_storage := m(createInstanceKey k i \<mapsto> v)\<rparr>) =
     (if k = ''recentLabels'' then as_labels v
      else recentLabels_of b (S\<lparr>local_storage := m\<rparr>))"
  by (simp add: recentLabels_of_def getInstanceData_upd)

lemma allLabels_of_upd:
  "getCurrentInstanceId b = Inr i \<Longrightarrow>
   allLabels_of b (S\<lparr>local_storage := m(createInstanceKey k i \<mapsto> v)\<rparr>) =
     (if k = ''allLabels'' then as_labels v
      else allLabels_of b (S\<lparr>local_storage := m\<rparr>))"
  by (simp add: allLabels_of_def getInstanceData_upd)

lemma labelCache_of_upd:
  "getCurrentInstanceId b = Inr i \<Longrightarrow>
   labelCache_of b (S\<lparr>local_storage := m(createInstanceKey k i \<mapsto> v)\<rparr>) =
     (if k = ''labelCache'' then as_cache v
      else labelCache_of b (S\<lparr>local_storage := m\<rparr>))"
  by (simp add: labelCache_of_def getInstanceData_upd)

lemmas reader_upd =
  failedOperations_of_upd executionHistory_of_upd recentLabels_of_upd allLabels_of_upd
  labelCache_of_upd

lemma readers_same [simp]:
  "failedOperations_of b (S\<lparr>local_storage := local_storage s0\<rparr>) = failedOperations_of b s0"
  "executionHistory_of b (S\<lparr>local_storage := local_storage s0\<rparr>) = executionHistory_of b s0"
  "recentLabels_of b (S\<lparr>local_storage := local_storage s0\<rparr>) = recentLabels_of b s0"
  "allLabels_of b (S\<lparr>local_storage := local_storage s0\<rparr>) = allLabels_of b s0"
  "labelCache_of b (S\<lparr>local_storage := local_storage s0\<rparr>) = labelCache_of b s0"
  by (simp_all add: failedOperations_of_def executionHistory_of_def recentLabels_of_def
      allLabels_of_def labelCache_of_def)

lemma readers_clock_reads [simp]:
  "failedOperations_of b (s\<lparr>clock_reads := n\<rparr>) = failedOperations_of b s"
  "executionHistory_of b (s\<lparr>clock_reads := n\<rparr>) = executionHistory_of b s"
  "recentLabels_of b (s\<lparr>clock_reads := n\<rparr>) = recentLabels_of b s"
  "allLabels_of b (s\<lparr>clock_reads := n\<rparr>) = allLabels_of b s"
  "labelCache_of b (s\<lparr>clock_reads := n\<rparr>) = labelCache_of b s"
  by (simp_all add: failedOperations_of_def executionHistory_of_def recentLabels_of_def
      allLabels_of_def labelCache_of_def)

lemma readers_requests [simp]:
  "failedOperations_of b (s\<lparr>requests := rs\<rparr>) = failedOperations_of b s"
  "executionHistory_of b (s\<lparr>requests := rs\<rparr>) = executionHistory_of b s"
  "recentLabels_of b (s\<lparr>requests := rs\<rparr>) = recentLabels_of b s"
  "allLabels_of b (s\<lparr>requests := rs\<rparr>) = allLabels_of b s"
  "labelCache_of b (s\<lparr>requests := rs\<rparr>) = labelCache_of b s"
  by (simp_all add: failedOperations_of_def executionHistory_of_def recentLabels_of_def
      allLabels_of_def labelCache_of_def)

lemma readers_cong_storage:
  assumes "local_storage s' = local_storage s"
  shows "failedOperations_of b s' = failedOperations_of b s"
    and "executionHistory_of b s' = executionHistory_of b s"
    and "recentLabels_of b s' = recentLabels_of b s"
    and "allLabels_of b s' = allLabels_of b s"
    and "labelCache_of b s' = labelCache_of b s"
  using getInstanceData_cong_storage [OF assms]
  by (simp_all add: failedOperations_of_def executionHistory_of_def recentLabels_of_def
      allLabels_of_def labelCache_of_def)

lemma same_operation_key:
  "same_operation b act labelName operation \<longleftrightarrow> group_key b operation = (act, toLowerCase b labelName)"
  by (auto simp: same_operation_def group_key_def)

lemma findIndex_Some:
  "findIndex P xs = Some i \<Longrightarrow> i < length xs \<and> P (xs ! i)"
proof (induction xs arbitrary: i)
  case Nil
  then show ?case by simp
next
  case (Cons x xs)
  show ?case
  proof (cases "P x")
    case True
    with Cons.prems show ?thesis by simp
  next
    case False
    with Cons.prems obtain j where j: "findIndex P xs = Some j" "i = Suc j" by auto
    from Cons.IH [OF j(1)] j(2) show ?thesis by simp
  qed
qed

lemma findIndex_None: "findIndex P xs = None \<longleftrightarrow> (\<forall>x \<in> set xs. \<not> P x)"
  by (induction xs) auto

lemma map_key_update:
  "i < length xs \<Longrightarrow> f y = f (xs ! i) \<Longrightarrow> map f (xs[i := y]) = map f xs"
  by (simp add: map_update list_update_same_conv)

lemma distinct_map_take: "distinct (map f xs) \<Longrightarrow> distinct (map f (take n xs))"
  by (simp add: take_map [symmetric] distinct_take)

lemma distinct_map_splice1: "distinct (map f xs) \<Longrightarrow> distinct (map f (splice1 i xs))"
proof -
  assume d: "distinct (map f xs)"
  have "map f (splice1 i xs) = take i (map f xs) @ drop (Suc i) (map f xs)"
    by (simp add: splice1_def take_map drop_map)
  moreover have "distinct (take i (map f xs) @ drop (Suc i) (map f xs))"
    using d set_take_disj_set_drop_if_distinct [of "map f xs" i "Suc i"]
    by (simp add: distinct_take distinct_drop)
  ultimately show ?thesis by simp
qed

lemma store_invariant_update:
  "store_invariant b groups \<Longrightarrow> i < length groups \<Longrightarrow> group_key b g = group_key b (groups ! i) \<Longrightarrow>
   store_invariant b (groups[i := g])"
  by (simp add: store_invariant_def map_key_update)

lemma store_invariant_take: "store_invariant b groups \<Longrightarrow> store_invariant b (take n groups)"
  by (auto simp: store_invariant_def distinct_map_take)

lemma store_invariant_splice1: "store_invariant b groups \<Longrightarrow> store_invariant b (splice1 i groups)"
  by (auto simp: store_invariant_def distinct_map_splice1) (simp add: splice1_def)

lemma store_invariant_filter: "store_invariant b groups \<Longrightarrow> store_invariant b (filter P groups)"
proof -
  assume a: "store_invariant b groups"
  from a have "length groups \<le> 20" by (simp add: store_invariant_def)
  with length_filter_le [of P groups] have "length (filter P groups) \<le> 20" by (rule le_trans)
  with a show ?thesis by (simp add: store_invariant_def distinct_map_filter)
qed

lemma store_invariant_insert:
  assumes "store_invariant b groups" and "group_key b g \<notin> group_key b ` set groups"
  shows "store_invariant b (take 20 (g # groups))"
  using assms by (auto simp: store_invariant_def distinct_map_take dest: in_set_takeD)

lemma failedOperations_of_unresolved:
  "getCurrentInstanceId b = Inl e \<Longrightarrow> failedOperations_of b s = []"
  by (simp add: failedOperations_of_def getInstanceData_unresolved)

lemma failedOperations_of_set:
  "getCurrentInstanceId b = Inr i \<Longrightarrow>
   setInstanceData b ''failedOperations'' (FailedOperations groups) s = (r, s') \<Longrightarrow>
   r = Inr () \<and> failedOperations_of b s' = groups"
  by (auto simp: setInstanceData_resolved failedOperations_of_upd)

lemma saveFailedOperation_store:
  assumes "getCurrentInstanceId b = Inr i"
  shows "\<exists>s'. saveFailedOperation b g s = (Inr (), s') \<and>
     failedOperations_of b s' =
       take 20 (case findIndex (same_operation b (op_action g) (op_labelName g)) (failedOperations_of b s) of
                  Some i \<Rightarrow> (failedOperations_of b s)[i := g]
                | None \<Rightarrow> g # failedOperations_of b s)"
  using assms
  by (simp add: saveFailedOperation_def Let_def setInstanceData_resolved failedOperations_of_upd)

lemma removeFailedOperation_store:
  assumes "getCurrentInstanceId b = Inr i"
  shows "\<exists>s'. removeFailedOperation b act l s = (Inr (), s') \<and>
     failedOperations_of b s' =
       filter (\<lambda>operation. \<not> same_operation b act l operation) (failedOperations_of b s)"
  using assms
  by (simp add: removeFailedOperation_def Let_def setInstanceData_resolved failedOperations_of_upd)

lemma saveFailedOperation_invariant:
  assumes "store_invariant b (failedOperations_of b s)" and "saveFailedOperation b g s = (r, s')"
  shows "store_invariant b (failedOperations_of b s')"
proof (cases "getCurrentInstanceId b")
  case (Inl e)
  then show ?thesis by (simp add: failedOperations_of_unresolved store_invariant_def)
next
  case (Inr i)
  let ?groups = "failedOperations_of b s"
  from saveFailedOperation_store [OF Inr, of g s] assms(2)
  have st: "failedOperations_of b s' =
       take 20 (case findIndex (same_operation b (op_action g) (op_labelName g)) ?groups of
                  Some i \<Rightarrow> ?groups[i := g] | None \<Rightarrow> g # ?groups)"
    by auto
  show ?thesis
  proof (cases "findIndex (same_operation b (op_action g) (op_labelName g)) ?groups")
    case None
    then have "group_key b g \<notin> group_key b ` set ?groups"
      by (auto simp: findIndex_None same_operation_key group_key_def)
    from store_invariant_insert [OF assms(1) this] st None show ?thesis by simp
  next
    case (Some j)
    from findIndex_Some [OF Some] have j: "j < length ?groups" "group_key b g = group_key b (?groups ! j)"
      by (auto simp: same_operation_key group_key_def)
    from store_invariant_take [OF store_invariant_update [OF assms(1) j]] st Some
    show ?thesis by simp
  qed
qed

lemma removeFailedOperation_invariant:
  assumes "store_invariant b (failedOperations_of b s)" and "removeFailedOperation b act l s = (r, s')"
  shows "store_invariant b (failedOperations_of b s')"
proof (cases "getCurrentInstanceId b")
  case (Inl e)
  then show ?thesis by (simp add: failedOperations_of_unresolved store_invariant_def)
next
  case (Inr i)
  from removeFailedOperation_store [OF Inr, of act l s] assms(2)
  have "failedOperations_of b s' =
       filter (\<lambda>operation. \<not> same_operation b act l operation) (failedOperations_of b s)"
    by auto
  with store_invariant_filter [OF assms(1)] show ?thesis by simp
qed

lemma settle_Inr:
  "settle uid (Inr v) c =
     c\<lparr>successCount := successCount c + 1, processedCount := processedCount c + 1\<rparr>"
  by (simp add: settle_def)

lemma settle_Inl:
  "settle uid (Inl e) c =
     c\<lparr>failedCount := failedCount c + 1, failedUids := failedUids c @ [uid],
       processedCount := processedCount c + 1\<rparr>"
  by (simp add: settle_def)

lemma settle_sums:
  "successCount (settle uid outcome c) + failedCount (settle uid outcome c) =
     Suc (successCount c + failedCount c)"
  "processedCount (settle uid outcome c) = Suc (processedCount c)"
  "length (failedUids (settle uid outcome c)) + successCount (settle uid outcome c) =
     Suc (length (failedUids c) + successCount c)"
  by (cases outcome; simp add: settle_Inr settle_Inl)+

lemma settle_failedUids:
  "failedUids (settle uid outcome c) = (if isl outcome then failedUids c @ [uid] else failedUids c)"
  "failedCount (settle uid outcome c) = (if isl outcome then Suc (failedCount c) else failedCount c)"
  by (cases outcome; simp add: settle_Inr settle_Inl)+

lemma settle_all_counts:
  "settle_all us outs order (c, p) = (c', p') \<Longrightarrow>
   successCount c' + failedCount c' + length p' = successCount c + failedCount c + length p \<and>
   processedCount c' + length p' = processedCount c + length p \<and>
   length (failedUids c') + successCount c' + length p' =
     length (failedUids c) + successCount c + length p"
proof (induction order arbitrary: c p)
  case Nil
  then show ?case by simp
next
  case (Cons i order)
  show ?case
  proof (cases "i \<in> set p")
    case True
    with Cons.prems have run: "settle_all us outs order (settle (us ! i) (outs ! i) c, remove1 i p) = (c', p')"
      by simp
    from True have "length p > 0" by (rule length_pos_if_in_set)
    with True have len: "length p = Suc (length (remove1 i p))" by (simp add: length_remove1)
    from Cons.IH [OF run] show ?thesis
      unfolding len by (simp add: settle_sums)
  next
    case False
    with Cons.prems have "settle_all us outs order (c, p) = (c', p')" by simp
    from Cons.IH [OF this] show ?thesis .
  qed
qed

lemma settle_all_pending:
  "distinct p \<Longrightarrow> settle_all us outs order (c, p) = (c', p') \<Longrightarrow>
   distinct p' \<and> set p' = set p - set order"
proof (induction order arbitrary: c p)
  case Nil
  then show ?case by simp
next
  case (Cons i order)
  show ?case
  proof (cases "i \<in> set p")
    case True
    with Cons.prems have run: "settle_all us outs order (settle (us ! i) (outs ! i) c, remove1 i p) = (c', p')"
      by simp
    from Cons.prems(1) have "distinct (remove1 i p)" by simp
    from Cons.IH [OF this run] Cons.prems(1) show ?thesis by auto
  next
    case False
    with Cons.prems have "settle_all us outs order (c, p) = (c', p')" by simp
    from Cons.IH [OF Cons.prems(1) this] False show ?thesis by auto
  qed
qed

lemma settle_all_failed:
  "distinct p \<Longrightarrow> settle_all us outs order (c, p) = (c', p') \<Longrightarrow>
   set (failedUids c') =
     set (failedUids c) \<union> {us ! i | i. i \<in> set p \<and> i \<in> set order \<and> isl (outs ! i)}"
proof (induction order arbitrary: c p)
  case Nil
  then show ?case by simp
next
  case (Cons i order)
  show ?case
  proof (cases "i \<in> set p")
    case True
    with Cons.prems have run: "settle_all us outs order (settle (us ! i) (outs ! i) c, remove1 i p) = (c', p')"
      by simp
    from Cons.prems(1) have d: "distinct (remove1 i p)" by simp
    from Cons.prems(1) have s: "set (remove1 i p) = set p - {i}" by simp
    from Cons.IH [OF d run] have
      "set (failedUids c') = set (failedUids (settle (us ! i) (outs ! i) c)) \<union>
         {us ! j | j. j \<in> set p - {i} \<and> j \<in> set order \<and> isl (outs ! j)}"
      unfolding s .
    with True show ?thesis
      by (auto simp: settle_failedUids split: if_splits)
  next
    case False
    with Cons.prems have "settle_all us outs order (c, p) = (c', p')" by simp
    from Cons.IH [OF Cons.prems(1) this] False show ?thesis by auto
  qed
qed


lemma batchProcess_Some:
  assumes "batchProcess order us apiFn s = Some (c, s')"
  shows "s' = snd (launch apiFn us s) \<and>
    {..<length us} \<subseteq> set order \<and>
    successCount c + failedCount c = length us \<and>
    length (failedUids c) = failedCount c \<and>
    processedCount c = length us \<and>
    set (failedUids c) = {us ! i | i. i < length us \<and> isl (fst (launch apiFn us s) ! i)}"
proof -
  obtain outs s1 where l: "launch apiFn us s = (outs, s1)" by (cases "launch apiFn us s")
  let ?c0 = "\<lparr>processedCount = 0, successCount = 0, failedCount = 0, failedUids = []\<rparr>"
  obtain c1 p1 where sa: "settle_all us outs order (?c0, [0..<length us]) = (c1, p1)"
    by (cases "settle_all us outs order (?c0, [0..<length us])")
  from assms l sa have e: "p1 = []" "c1 = c" "s1 = s'"
    by (auto simp: batchProcess_def split: if_splits)
  from settle_all_counts [OF sa] e have
    cnt: "successCount c + failedCount c = length us" "processedCount c = length us"
      "length (failedUids c) + successCount c = length us"
    by simp_all
  from settle_all_pending [OF _ sa] e have cov: "{..<length us} \<subseteq> set order" by auto
  from settle_all_failed [OF _ sa] e cov
  have "set (failedUids c) = {us ! i | i. i < length us \<and> isl (outs ! i)}" by auto
  with cnt cov l e show ?thesis by simp
qed



lemma example_fields [simp]:
  "server example_browser = example_server"
  "clock example_browser = example_clock"
  "page_reply example_browser = Inr \<lparr>uids = [''x1'', ''x2'', ''x3''], token = ''tok''\<rparr>"
  "labelInput_value example_browser = ''dog''"
  "forceRefreshAllDisplays example_browser = Some ''forceRefreshAllDisplays is not defined''"
  "active_tabs example_browser = [\<lparr>tab_url = Some ''https://photos.example.com/library/browse''\<rparr>]"
  "toLowerCase example_browser = ascii_toLowerCase"
  "trim example_browser = ascii_trim"
  by (simp_all add: example_browser_def)

lemma example_baseUrl: "currentBaseUrl example_browser = Inr ''https://photos.example.com''"
  by (simp add: currentBaseUrl_def example_browser_def new_URL_def example_parse_def)

lemma plain404_baseUrl: "currentBaseUrl plain404_browser = Inr ''https://photos.example.com''"
  by (simp add: currentBaseUrl_def plain404_browser_def example_browser_def new_URL_def
      example_parse_def)

lemma plain404_fields [simp]:
  "server plain404_browser = plain404_server"
  "clock plain404_browser = example_clock"
  "page_reply plain404_browser = Inr \<lparr>uids = [''x1'', ''x2'', ''x3''], token = ''tok''\<rparr>"
  "labelInput_value plain404_browser = ''dog''"
  "active_tabs plain404_browser = [\<lparr>tab_url = Some ''https://photos.example.com/library/browse''\<rparr>]"
  "toLowerCase plain404_browser = ascii_toLowerCase"
  "trim plain404_browser = ascii_trim"
  by (simp_all add: plain404_browser_def example_browser_def)

lemma plain404_instance: "getCurrentInstanceId plain404_browser = Inr ''https://photos.example.com''"
  by (simp add: getCurrentInstanceId_def plain404_browser_def example_browser_def new_URL_def
      example_parse_def)


lemma plain404_remove_batch:
  "batchProcess [0] [''x1''] (\<lambda>uid. removeLabel plain404_browser uid (Number 7) ''tok'') empty_state =
   Some (\<lparr>processedCount = 1, successCount = 0, failedCount = 1, failedUids = [''x1'']\<rparr>,
         empty_state\<lparr>requests :=
           [removeLabel_request ''https://photos.example.com'' ''x1'' (Number 7) ''tok'']\<rparr>)"
  by (simp add: batchProcess_def removeLabel_def plain404_baseUrl fetch_def Let_def empty_state_def
      settle_def ok_def plain404_server_def)

lemma addLabel_reply:
  assumes "currentBaseUrl b = Inr base"
    and "server b (length (requests s)) (addLabel_request base uid l tok) = Response r"
  shows "(\<not> ok r \<longrightarrow> isl (fst (addLabel b uid l tok s))) \<and>
     (ok r \<longrightarrow> fst (addLabel b uid l tok s) =
        (case json r of None \<Rightarrow> Inl SyntaxError_json | Some j \<Rightarrow> Inr j))"
  using assms by (simp add: addLabel_def fetch_def Let_def split: option.splits)

lemma removeLabel_reply:
  assumes "currentBaseUrl b = Inr base"
    and "server b (length (requests s)) (removeLabel_request base uid labelId tok) = Response r"
  shows "(\<not> ok r \<and> status r \<noteq> 404 \<longrightarrow> isl (fst (removeLabel b uid labelId tok s))) \<and>
     (ok r \<or> status r = 404 \<longrightarrow> fst (removeLabel b uid labelId tok s) =
        (case json r of None \<Rightarrow> Inl SyntaxError_json | Some j \<Rightarrow> Inr j))"
  using assms by (auto simp: removeLabel_def fetch_def Let_def split: option.splits)

lemma toLowerChar_idem: "toLowerChar (toLowerChar c) = toLowerChar c"
  by (simp add: toLowerChar_def)

lemma ascii_toLowerCase_idem [simp]: "ascii_toLowerCase (ascii_toLowerCase s) = ascii_toLowerCase s"
  by (simp add: ascii_toLowerCase_def toLowerChar_idem)

lemma ascii_toLowerCase_Nil [simp]: "ascii_toLowerCase s = [] \<longleftrightarrow> s = []"
  by (simp add: ascii_toLowerCase_def)




lemma currentBaseUrl_instance: "currentBaseUrl b = Inr x \<longleftrightarrow> getCurrentInstanceId b = Inr x"
  by (auto simp: currentBaseUrl_def getCurrentInstanceId_def new_URL_def
      split: list.splits option.splits if_splits)

lemma getLabelId_request_method [simp]: "req_method (getLabelId_request base u t) = GET"
  by (simp add: getLabelId_request_def)

lemma getLabelId_shape:
  assumes "getLabelId b l u t s = (r, s')"
  shows "(\<forall>e. r = Inl e \<longrightarrow>
            s' = s \<or> (\<exists>base. currentBaseUrl b = Inr base \<and>
                         s' = s\<lparr>requests := requests s @ [getLabelId_request base u t]\<rparr>)) \<and>
         (\<forall>v. r = Inr v \<longrightarrow>
            (s' = s \<and> cache_hit (labelCache_of b s) l = Some v) \<or>
            (\<exists>i labelId. getCurrentInstanceId b = Inr i \<and> v = Number labelId \<and>
               cache_hit (labelCache_of b s) l = None \<and>
               s' = s\<lparr>requests := requests s @ [getLabelId_request i u t],
                      local_storage := (local_storage s)(createInstanceKey ''labelCache'' i \<mapsto>
                         LabelCache ((labelCache_of b s)(l \<mapsto> labelId)))\<rparr>))"
proof (cases "getCurrentInstanceId b")
  case (Inl e)
  with assms show ?thesis
    by (auto simp: getLabelId_def labelCache_of_def [symmetric] fetch_def Let_def
        setInstanceData_unresolved
        split: fetch_result.splits option.splits sum.splits if_splits)
next
  case (Inr i)
  then have "currentBaseUrl b = Inr i" by (simp add: currentBaseUrl_instance)
  with Inr assms show ?thesis
    by (auto simp: getLabelId_def labelCache_of_def [symmetric] fetch_def Let_def
        setInstanceData_resolved
        split: fetch_result.splits option.splits sum.splits if_splits)
qed

lemma getLabelId_frame:
  assumes "getLabelId b l u t s = (r, s')"
  shows "clock_reads s' = clock_reads s"
    and "failedOperations_of b s' = failedOperations_of b s"
    and "executionHistory_of b s' = executionHistory_of b s"
    and "recentLabels_of b s' = recentLabels_of b s"
    and "allLabels_of b s' = allLabels_of b s"
  using getLabelId_shape [OF assms]
  by (cases r; auto simp: reader_upd)+

lemma getLabelId_failure:
  assumes "getLabelId b l u t s = (Inl e, s')"
  shows "local_storage s' = local_storage s"
    and "s' = s \<or> (\<exists>base. currentBaseUrl b = Inr base \<and>
           s' = s\<lparr>requests := requests s @ [getLabelId_request base u t]\<rparr>)"
  using getLabelId_shape [OF assms] by auto



lemma isSpace_toLowerChar [simp]: "isSpace (toLowerChar c) = isSpace c"
  by (simp add: isSpace_def toLowerChar_def)

lemma dropWhile_isSpace_toLowerCase:
  "dropWhile isSpace (ascii_toLowerCase s) = ascii_toLowerCase (dropWhile isSpace s)"
  by (induction s) (simp_all add: ascii_toLowerCase_def)

lemma ascii_trim_toLowerCase: "ascii_trim (ascii_toLowerCase s) = ascii_toLowerCase (ascii_trim s)"
proof -
  have r: "rev (ascii_toLowerCase x) = ascii_toLowerCase (rev x)" for x
    by (simp add: ascii_toLowerCase_def rev_map)
  show ?thesis
    by (simp add: ascii_trim_def dropWhile_isSpace_toLowerCase r)
qed



lemma addToRecentLabels_store:
  assumes "getCurrentInstanceId b = Inr i" and "trim b a \<noteq> []"
  shows "\<exists>s'. addToRecentLabels b a s = (Inr (), s') \<and>
     recentLabels_of b s' =
       take 20 (toLowerCase b (trim b a) #
                filter (\<lambda>label. toLowerCase b label \<noteq> toLowerCase b (trim b a)) (recentLabels_of b s)) \<and>
     allLabels_of b s' =
       (if list_ex (\<lambda>label. toLowerCase b label = toLowerCase b (trim b a)) (allLabels_of b s)
        then allLabels_of b s else sort (allLabels_of b s @ [toLowerCase b (trim b a)])) \<and>
     failedOperations_of b s' = failedOperations_of b s \<and>
     executionHistory_of b s' = executionHistory_of b s \<and>
     labelCache_of b s' = labelCache_of b s \<and>
     requests s' = requests s \<and> clock_reads s' = clock_reads s"
  using assms
  by (simp add: addToRecentLabels_def Let_def setInstanceData_resolved reader_upd)






lemma addLabel_frame:
  "addLabel b uid l t s = (r, s') \<Longrightarrow>
   local_storage s' = local_storage s \<and> clock_reads s' = clock_reads s"
  by (auto simp: addLabel_def fetch_def Let_def
      split: sum.splits fetch_result.splits if_splits option.splits)

lemma removeLabel_frame:
  "removeLabel b uid labelId t s = (r, s') \<Longrightarrow>
   local_storage s' = local_storage s \<and> clock_reads s' = clock_reads s"
  by (auto simp: removeLabel_def fetch_def Let_def
      split: sum.splits fetch_result.splits if_splits option.splits)

lemma addLabel_requests:
  "currentBaseUrl b = Inr base \<Longrightarrow>
   requests (snd (addLabel b uid l t s)) = requests s @ [addLabel_request base uid l t]"
  by (auto simp: addLabel_def fetch_def Let_def
      split: sum.splits fetch_result.splits if_splits option.splits)


lemma launch_frame:
  assumes "\<And>uid s r s'. apiFn uid s = (r, s') \<Longrightarrow>
      local_storage s' = local_storage s \<and> clock_reads s' = clock_reads s"
  shows "launch apiFn us s = (outs, s') \<Longrightarrow>
      local_storage s' = local_storage s \<and> clock_reads s' = clock_reads s"
proof (induction us arbitrary: s outs s')
  case Nil
  then show ?case by simp
next
  case (Cons u us)
  obtain r s1 where a: "apiFn u s = (r, s1)" by (cases "apiFn u s")
  obtain rs s2 where l: "launch apiFn us s1 = (rs, s2)" by (cases "launch apiFn us s1")
  from Cons.prems a l have e: "s' = s2" by simp
  from Cons.IH [OF l] assms [OF a] e show ?case by simp
qed


lemma batchProcess_frame:
  assumes "\<And>uid s r s'. apiFn uid s = (r, s') \<Longrightarrow>
      local_storage s' = local_storage s \<and> clock_reads s' = clock_reads s"
    and "batchProcess order us apiFn s = Some (c, s')"
  shows "local_storage s' = local_storage s \<and> clock_reads s' = clock_reads s"
proof -
  from batchProcess_Some [OF assms(2)] have "s' = snd (launch apiFn us s)" by simp
  then have "launch apiFn us s = (fst (launch apiFn us s), s')" by simp
  from launch_frame [OF assms(1) this] show ?thesis by simp
qed

lemma run_action_frame:
  assumes "run_action b act l us tok order s = Some (r, s')"
  shows "clock_reads s' = clock_reads s"
    and "failedOperations_of b s' = failedOperations_of b s"
    and "executionHistory_of b s' = executionHistory_of b s"
    and "recentLabels_of b s' = recentLabels_of b s"
    and "allLabels_of b s' = allLabels_of b s"
proof -
  have "clock_reads s' = clock_reads s \<and> failedOperations_of b s' = failedOperations_of b s \<and>
    executionHistory_of b s' = executionHistory_of b s \<and>
    recentLabels_of b s' = recentLabels_of b s \<and> allLabels_of b s' = allLabels_of b s"
  proof (cases act)
    case Add
    with assms obtain c where
      bp: "batchProcess order us (\<lambda>uid. addLabel b uid l tok) s = Some (c, s')"
      by (auto simp: run_action_def split: option.splits)
    from batchProcess_frame [OF _ bp] addLabel_frame
    have "local_storage s' = local_storage s \<and> clock_reads s' = clock_reads s" by blast
    with readers_cong_storage [of s' s b] show ?thesis by simp
  next
    case Remove
    obtain r1 s1 where g: "getLabelId b l (first_uid us) tok s = (r1, s1)"
      by (cases "getLabelId b l (first_uid us) tok s")
    note f = getLabelId_frame [OF g]
    show ?thesis
    proof (cases r1)
      case (Inl e)
      with assms Remove g have "s' = s1" by (simp add: run_action_def)
      with f show ?thesis by simp
    next
      case (Inr labelId)
      with assms Remove g obtain c where
        bp: "batchProcess order us (\<lambda>uid. removeLabel b uid labelId tok) s1 = Some (c, s')"
        by (auto simp: run_action_def split: option.splits)
      from batchProcess_frame [OF _ bp] removeLabel_frame
      have "local_storage s' = local_storage s1 \<and> clock_reads s' = clock_reads s1" by blast
      with readers_cong_storage [of s' s1 b] f show ?thesis by simp
    qed
  qed
  then show "clock_reads s' = clock_reads s"
    and "failedOperations_of b s' = failedOperations_of b s"
    and "executionHistory_of b s' = executionHistory_of b s"
    and "recentLabels_of b s' = recentLabels_of b s"
    and "allLabels_of b s' = allLabels_of b s"
    by simp_all
qed


lemma run_action_Inl:
  "run_action b act l us tok order s = Some (Inl e, s') \<longleftrightarrow>
     act = Remove \<and> getLabelId b l (first_uid us) tok s = (Inl e, s')"
  by (cases act; auto simp: run_action_def split: option.splits prod.splits sum.splits)

lemma saveExecutionResult_resolved:
  assumes "getCurrentInstanceId b = Inr i"
  shows "\<exists>s'. saveExecutionResult b r s = (Inr (), s') \<and>
     executionHistory_of b s' =
       take 50 (r\<lparr>ex_id := Some (toString (clock b (clock_reads s)))\<rparr> # executionHistory_of b s) \<and>
     failedOperations_of b s' = failedOperations_of b s \<and>
     recentLabels_of b s' = recentLabels_of b s \<and> allLabels_of b s' = allLabels_of b s \<and>
     requests s' = requests s \<and> clock_reads s' = Suc (clock_reads s)"
  using assms
  by (simp add: saveExecutionResult_def Date_now_def setInstanceData_resolved reader_upd)

lemma saveExecutionResult_unresolved:
  assumes "getCurrentInstanceId b = Inl e"
  shows "saveExecutionResult b r s = (Inl e, s\<lparr>clock_reads := Suc (clock_reads s)\<rparr>)"
  using assms
  by (simp add: saveExecutionResult_def Date_now_def setInstanceData_unresolved)

lemma failedOperations_resolved:
  "index < length (failedOperations_of b s) \<Longrightarrow> \<exists>i. getCurrentInstanceId b = Inr i"
  by (cases "getCurrentInstanceId b") (simp_all add: failedOperations_of_unresolved)

lemma retryFailedOperation_unfold:
  assumes "index < length (failedOperations_of b s)"
    and "op_failedUids (failedOperations_of b s ! index) \<noteq> []"
  shows "retryFailedOperation b index order s =
     (case retry_try b (failedOperations_of b s) index
             \<lparr>ex_action = op_action (failedOperations_of b s ! index),
              ex_labelName = op_labelName (failedOperations_of b s ! index),
              ex_totalCount = length (op_failedUids (failedOperations_of b s ! index)),
              ex_successCount = 0, ex_failedCount = 0, ex_failedUids = [],
              ex_startTime = clock b (Suc (clock_reads s)), ex_duration = 0, ex_error = None,
              ex_isRetry = True, ex_id = None\<rparr>
             order (snd (Date_now b (snd (Date_now b s)))) of
        None \<Rightarrow> None
      | Some (thrown, R, s3) \<Rightarrow>
          Some (saveExecutionResult b
                  ((case thrown of Inl e \<Rightarrow> R\<lparr>ex_error := Some e\<rparr> | Inr _ \<Rightarrow> R)
                     \<lparr>ex_duration := int (clock b (clock_reads s3)) - int (clock b (clock_reads s))\<rparr>)
                  (s3\<lparr>clock_reads := Suc (clock_reads s3)\<rparr>)))"
  using assms
  by (simp add: retryFailedOperation_def Let_def Date_now_def split: option.splits prod.splits)

lemma retry_try_source_fails:
  "getPhotoPrismData b = Inl e \<Longrightarrow> retry_try b groups index R order s = Some (Inl e, R, s)"
  by (simp add: retry_try_def)

lemma retry_try_action_fails:
  "getPhotoPrismData b = Inr d \<Longrightarrow>
   run_action b (op_action (groups ! index)) (op_labelName (groups ! index))
     (op_failedUids (groups ! index)) (token d) order s = Some (Inl e, s1) \<Longrightarrow>
   retry_try b groups index R order s = Some (Inl e, R, s1)"
  by (simp add: retry_try_def)

lemma retry_try_never_settles:
  "getPhotoPrismData b = Inr d \<Longrightarrow>
   run_action b (op_action (groups ! index)) (op_labelName (groups ! index))
     (op_failedUids (groups ! index)) (token d) order s = None \<Longrightarrow>
   retry_try b groups index R order s = None"
  by (simp add: retry_try_def)

lemma retry_try_completed:
  assumes "getCurrentInstanceId b = Inr i" and "getPhotoPrismData b = Inr d"
    and "run_action b (op_action (groups ! index)) (op_labelName (groups ! index))
     (op_failedUids (groups ! index)) (token d) order s = Some (Inr result, s1)"
  shows "\<exists>s2. retry_try b groups index R order s =
       Some (case forceRefreshAllDisplays b of Some e \<Rightarrow> Inl e | None \<Rightarrow> Inr (),
             R\<lparr>ex_successCount := successCount result, ex_failedCount := failedCount result,
               ex_failedUids := failedUids result\<rparr>, s2) \<and>
     failedOperations_of b s2 =
       (if failedUids result = [] then splice1 index groups
        else groups[index := (groups ! index)
               \<lparr>op_failedUids := failedUids result,
                op_retryCount := op_retryCount (groups ! index) + 1,
                op_timestamp := clock b (clock_reads s1)\<rparr>]) \<and>
     executionHistory_of b s2 = executionHistory_of b s1 \<and>
     requests s2 = requests s1 \<and>
     clock_reads s2 = (if failedUids result = [] then clock_reads s1 else Suc (clock_reads s1))"
  using assms
  by (cases "forceRefreshAllDisplays b")
     (simp_all add: retry_try_def Let_def Date_now_def setInstanceData_resolved reader_upd)

lemma Date_now_twice:
  "snd (Date_now b (snd (Date_now b s))) = s\<lparr>clock_reads := Suc (Suc (clock_reads s))\<rparr>"
  by (simp add: Date_now_def)

lemma retry_aborted:
  assumes idx: "index < length (failedOperations_of b s)"
    and ne: "op_failedUids (failedOperations_of b s ! index) \<noteq> []"
    and fail: "getPhotoPrismData b = Inl e \<or>
       (\<exists>d s1. getPhotoPrismData b = Inr d \<and>
          run_action b (op_action (failedOperations_of b s ! index))
            (op_labelName (failedOperations_of b s ! index))
            (op_failedUids (failedOperations_of b s ! index)) (token d) order
            (snd (Date_now b (snd (Date_now b s)))) = Some (Inl e, s1))"
  shows "\<exists>s' rec. retryFailedOperation b index order s = Some (Inr (), s') \<and>
     failedOperations_of b s' = failedOperations_of b s \<and>
     executionHistory_of b s' = take 50 (rec # executionHistory_of b s) \<and>
     ex_isRetry rec \<and> ex_successCount rec = 0 \<and> ex_failedCount rec = 0 \<and>
     ex_failedUids rec = [] \<and> ex_error rec = Some e \<and>
     ex_action rec = op_action (failedOperations_of b s ! index) \<and>
     ex_labelName rec = op_labelName (failedOperations_of b s ! index) \<and>
     ex_totalCount rec = length (op_failedUids (failedOperations_of b s ! index))"
proof -
  let ?g = "failedOperations_of b s ! index"
  let ?s2 = "snd (Date_now b (snd (Date_now b s)))"
  let ?R = "\<lparr>ex_action = op_action ?g, ex_labelName = op_labelName ?g,
              ex_totalCount = length (op_failedUids ?g),
              ex_successCount = 0, ex_failedCount = 0, ex_failedUids = [],
              ex_startTime = clock b (Suc (clock_reads s)), ex_duration = 0, ex_error = None,
              ex_isRetry = True, ex_id = None\<rparr>"
  from failedOperations_resolved [OF idx] obtain i where res: "getCurrentInstanceId b = Inr i" ..
  have "\<exists>s3. retry_try b (failedOperations_of b s) index ?R order ?s2 = Some (Inl e, ?R, s3) \<and>
      failedOperations_of b s3 = failedOperations_of b s \<and>
      executionHistory_of b s3 = executionHistory_of b s"
  proof (cases "getPhotoPrismData b")
    case (Inl e')
    with fail have "e' = e" by auto
    with Inl retry_try_source_fails [of b e "failedOperations_of b s" index ?R order ?s2]
    show ?thesis by (simp add: Date_now_twice)
  next
    case (Inr d)
    with fail obtain s1 where
      ra: "run_action b (op_action ?g) (op_labelName ?g) (op_failedUids ?g) (token d) order ?s2 =
         Some (Inl e, s1)"
      by auto
    from retry_try_action_fails [OF Inr ra] run_action_frame [OF ra]
    show ?thesis by (simp add: Date_now_twice)
  qed
  then obtain s3 where
    t: "retry_try b (failedOperations_of b s) index ?R order ?s2 = Some (Inl e, ?R, s3)"
    and f3: "failedOperations_of b s3 = failedOperations_of b s"
    and h3: "executionHistory_of b s3 = executionHistory_of b s"
    by blast
  define rec0 where "rec0 = ?R\<lparr>ex_error := Some e,
      ex_duration := int (clock b (clock_reads s3)) - int (clock b (clock_reads s))\<rparr>"
  from saveExecutionResult_resolved [OF res, of rec0 "s3\<lparr>clock_reads := Suc (clock_reads s3)\<rparr>"]
  obtain s' where
    sv: "saveExecutionResult b rec0 (s3\<lparr>clock_reads := Suc (clock_reads s3)\<rparr>) = (Inr (), s')"
    and h': "executionHistory_of b s' =
       take 50 (rec0\<lparr>ex_id := Some (toString (clock b (Suc (clock_reads s3))))\<rparr> #
                executionHistory_of b s3)"
    and f': "failedOperations_of b s' = failedOperations_of b s3"
    by auto
  have run: "retryFailedOperation b index order s = Some (Inr (), s')"
    unfolding retryFailedOperation_unfold [OF idx ne] t using sv by (simp add: rec0_def)
  show ?thesis
    apply (rule exI [of _ s'])
    apply (rule exI [of _ "rec0\<lparr>ex_id := Some (toString (clock b (Suc (clock_reads s3))))\<rparr>"])
    using run h' f' f3 h3 by (simp add: rec0_def)
qed

lemma retry_completed:
  assumes idx: "index < length (failedOperations_of b s)"
    and ne: "op_failedUids (failedOperations_of b s ! index) \<noteq> []"
    and src: "getPhotoPrismData b = Inr d"
    and ra: "run_action b (op_action (failedOperations_of b s ! index))
            (op_labelName (failedOperations_of b s ! index))
            (op_failedUids (failedOperations_of b s ! index)) (token d) order
            (snd (Date_now b (snd (Date_now b s)))) = Some (Inr result, s1)"
  shows "\<exists>s' rec. retryFailedOperation b index order s = Some (Inr (), s') \<and>
     failedOperations_of b s' =
       (if failedUids result = [] then splice1 index (failedOperations_of b s)
        else (failedOperations_of b s)[index := (failedOperations_of b s ! index)
               \<lparr>op_failedUids := failedUids result,
                op_retryCount := op_retryCount (failedOperations_of b s ! index) + 1,
                op_timestamp := clock b (Suc (Suc (clock_reads s)))\<rparr>]) \<and>
     executionHistory_of b s' = take 50 (rec # executionHistory_of b s) \<and>
     ex_isRetry rec \<and> ex_successCount rec = successCount result \<and>
     ex_failedCount rec = failedCount result \<and> ex_failedUids rec = failedUids result \<and>
     ex_error rec = forceRefreshAllDisplays b \<and>
     ex_action rec = op_action (failedOperations_of b s ! index) \<and>
     ex_labelName rec = op_labelName (failedOperations_of b s ! index) \<and>
     ex_totalCount rec = length (op_failedUids (failedOperations_of b s ! index)) \<and>
     requests s' = requests s1"
proof -
  let ?g = "failedOperations_of b s ! index"
  let ?s2 = "snd (Date_now b (snd (Date_now b s)))"
  let ?R = "\<lparr>ex_action = op_action ?g, ex_labelName = op_labelName ?g,
              ex_totalCount = length (op_failedUids ?g),
              ex_successCount = 0, ex_failedCount = 0, ex_failedUids = [],
              ex_startTime = clock b (Suc (clock_reads s)), ex_duration = 0, ex_error = None,
              ex_isRetry = True, ex_id = None\<rparr>"
  let ?R1 = "?R\<lparr>ex_successCount := successCount result, ex_failedCount := failedCount result,
               ex_failedUids := failedUids result\<rparr>"
  let ?thrown = "case forceRefreshAllDisplays b of Some e \<Rightarrow> Inl e | None \<Rightarrow> Inr ()"
  from failedOperations_resolved [OF idx] obtain i where res: "getCurrentInstanceId b = Inr i" ..
  note fr = run_action_frame [OF ra]
  from fr(1) have c1: "clock_reads s1 = Suc (Suc (clock_reads s))" by (simp add: Date_now_twice)
  from retry_try_completed [OF res src ra, of ?R] obtain s3 where
    t: "retry_try b (failedOperations_of b s) index ?R order ?s2 = Some (?thrown, ?R1, s3)"
    and f3: "failedOperations_of b s3 =
       (if failedUids result = [] then splice1 index (failedOperations_of b s)
        else (failedOperations_of b s)[index := ?g
               \<lparr>op_failedUids := failedUids result, op_retryCount := op_retryCount ?g + 1,
                op_timestamp := clock b (clock_reads s1)\<rparr>])"
    and h3: "executionHistory_of b s3 = executionHistory_of b s1"
    and r3: "requests s3 = requests s1"
    by blast
  define rec0 where "rec0 = (case ?thrown of Inl e \<Rightarrow> ?R1\<lparr>ex_error := Some e\<rparr> | Inr _ \<Rightarrow> ?R1)
      \<lparr>ex_duration := int (clock b (clock_reads s3)) - int (clock b (clock_reads s))\<rparr>"
  from saveExecutionResult_resolved [OF res, of rec0 "s3\<lparr>clock_reads := Suc (clock_reads s3)\<rparr>"]
  obtain s' where
    sv: "saveExecutionResult b rec0 (s3\<lparr>clock_reads := Suc (clock_reads s3)\<rparr>) = (Inr (), s')"
    and h': "executionHistory_of b s' =
       take 50 (rec0\<lparr>ex_id := Some (toString (clock b (Suc (clock_reads s3))))\<rparr> #
                executionHistory_of b s3)"
    and f': "failedOperations_of b s' = failedOperations_of b s3"
    and r': "requests s' = requests s3"
    by auto
  have run: "retryFailedOperation b index order s = Some (Inr (), s')"
    unfolding retryFailedOperation_unfold [OF idx ne] t using sv
    by (cases "forceRefreshAllDisplays b") (simp_all add: rec0_def)
  have rec: "ex_isRetry rec0 \<and> ex_successCount rec0 = successCount result \<and>
     ex_failedCount rec0 = failedCount result \<and> ex_failedUids rec0 = failedUids result \<and>
     ex_error rec0 = forceRefreshAllDisplays b \<and> ex_action rec0 = op_action ?g \<and>
     ex_labelName rec0 = op_labelName ?g \<and> ex_totalCount rec0 = length (op_failedUids ?g)"
    by (cases "forceRefreshAllDisplays b") (simp_all add: rec0_def)
  show ?thesis
    apply (rule exI [of _ s'])
    apply (rule exI [of _ "rec0\<lparr>ex_id := Some (toString (clock b (Suc (clock_reads s3))))\<rparr>"])
    using run h' f' f3 h3 r' r3 rec fr(3) c1 by (simp add: Date_now_twice)
qed

lemma retry_store_cases:
  assumes "retryFailedOperation b index order s = Some (res, s')"
  shows "failedOperations_of b s' = failedOperations_of b s \<or>
     failedOperations_of b s' = splice1 index (failedOperations_of b s) \<or>
     (index < length (failedOperations_of b s) \<and>
      (\<exists>g. group_key b g = group_key b (failedOperations_of b s ! index) \<and>
           failedOperations_of b s' = (failedOperations_of b s)[index := g]))"
proof (cases "index < length (failedOperations_of b s) \<and>
    op_failedUids (failedOperations_of b s ! index) \<noteq> []")
  case False
  with assms have "s' = s"
    by (auto simp: retryFailedOperation_def Let_def split: if_splits)
  then show ?thesis by simp
next
  case True
  then have idx: "index < length (failedOperations_of b s)"
    and ne: "op_failedUids (failedOperations_of b s ! index) \<noteq> []"
    by simp_all
  let ?g = "failedOperations_of b s ! index"
  let ?s2 = "snd (Date_now b (snd (Date_now b s)))"
  show ?thesis
  proof (cases "getPhotoPrismData b")
    case (Inl e)
    from retry_aborted [OF idx ne, of e order] Inl assms show ?thesis by auto
  next
    case (Inr d)
    show ?thesis
    proof (cases "run_action b (op_action ?g) (op_labelName ?g) (op_failedUids ?g) (token d) order ?s2")
      case None
      from retry_try_never_settles [OF Inr None] assms show ?thesis
        unfolding retryFailedOperation_unfold [OF idx ne] by simp
    next
      case (Some p)
      obtain r s1 where p: "p = (r, s1)" by (cases p)
      show ?thesis
      proof (cases r)
        case (Inl e)
        with Some p Inr have "\<exists>d s1. getPhotoPrismData b = Inr d \<and>
          run_action b (op_action ?g) (op_labelName ?g) (op_failedUids ?g) (token d) order ?s2 =
            Some (Inl e, s1)"
          by auto
        then have "getPhotoPrismData b = Inl e \<or> (\<exists>d s1. getPhotoPrismData b = Inr d \<and>
          run_action b (op_action ?g) (op_labelName ?g) (op_failedUids ?g) (token d) order ?s2 =
            Some (Inl e, s1))" ..
        from retry_aborted [OF idx ne this] assms show ?thesis by auto
      next
        case (Inr result)
        with Some p have ra: "run_action b (op_action ?g) (op_labelName ?g) (op_failedUids ?g)
            (token d) order ?s2 = Some (Inr result, s1)"
          by simp
        from retry_completed [OF idx ne \<open>getPhotoPrismData b = Inr d\<close> ra] assms obtain
          f: "failedOperations_of b s' =
            (if failedUids result = [] then splice1 index (failedOperations_of b s)
             else (failedOperations_of b s)[index := ?g
               \<lparr>op_failedUids := failedUids result, op_retryCount := op_retryCount ?g + 1,
                op_timestamp := clock b (Suc (Suc (clock_reads s)))\<rparr>])"
          by auto
        have "group_key b (?g\<lparr>op_failedUids := failedUids result, op_retryCount := op_retryCount ?g + 1,
                op_timestamp := clock b (Suc (Suc (clock_reads s)))\<rparr>) = group_key b ?g"
          by (simp add: group_key_def)
        with f idx show ?thesis by (cases "failedUids result = []") auto
      qed
    qed
  qed
qed

lemma example_source: "getPhotoPrismData example_browser = Inr \<lparr>uids = [''x1'', ''x2'', ''x3''], token = ''tok''\<rparr>"
  by (simp add: getPhotoPrismData_def)

lemma example_dog: "failedOperations_of example_browser dog_state = [dog_group]"
  by (simp add: failedOperations_of_def getInstanceData_resolved [OF example_instance]
      dog_state_def example_key_def)

lemma example_resolve_dog:
  "getLabelId example_browser ''dog'' ''x1'' ''tok''
     (snd (Date_now example_browser (snd (Date_now example_browser dog_state)))) =
   (Inl (''Failed to get label ID: '' @ ''Label '' @ [CHR 0x22] @ ''dog'' @ [CHR 0x22] @
         '' not found on the photo, cannot determine its ID.''),
    dog_state\<lparr>clock_reads := 2,
      requests := [getLabelId_request ''https://photos.example.com'' ''x1'' ''tok'']\<rparr>)"
  by (simp add: getLabelId_def getInstanceData_resolved [OF example_instance] dog_state_def
      Date_now_def cache_hit_def example_baseUrl fetch_def example_server_def getLabelId_request_def
      ok_def label_matches_def ascii_toLowerCase_def toLowerChar_def example_key_def
      Object_prototype_members_def
      createInstanceKey_def)


lemma findIndex_key:
  assumes "distinct (map f xs)" and "j < length xs" and "\<And>x. P x \<longleftrightarrow> f x = k" and "f (xs ! j) = k"
  shows "findIndex P xs = Some j"
proof (cases "findIndex P xs")
  case None
  with assms(2,3,4) show ?thesis by (auto simp: findIndex_None)
next
  case (Some j')
  from findIndex_Some [OF Some] assms(3) have j': "j' < length xs" "f (xs ! j') = k" by auto
  from assms(1) have "(map f xs ! j' = map f xs ! j) = (j' = j)"
    by (rule nth_eq_iff_index_eq) (simp_all add: j'(1) assms(2))
  with assms(2,4) j' have "j' = j" by simp
  with Some show ?thesis by simp
qed

lemma saveFailedOperation_existing:
  assumes "getCurrentInstanceId b = Inr i" and "store_invariant b (failedOperations_of b s)"
    and "j < length (failedOperations_of b s)"
    and "group_key b (failedOperations_of b s ! j) = group_key b g"
  shows "\<exists>s'. saveFailedOperation b g s = (Inr (), s') \<and>
     failedOperations_of b s' = (failedOperations_of b s)[j := g]"
proof -
  have "findIndex (same_operation b (op_action g) (op_labelName g)) (failedOperations_of b s) = Some j"
  proof (rule findIndex_key [where f = "group_key b" and k = "group_key b g"])
    show "distinct (map (group_key b) (failedOperations_of b s))"
      using assms(2) by (simp add: store_invariant_def)
    show "j < length (failedOperations_of b s)" by (rule assms(3))
    show "same_operation b (op_action g) (op_labelName g) x \<longleftrightarrow> group_key b x = group_key b g" for x
      by (simp add: same_operation_key group_key_def)
    show "group_key b (failedOperations_of b s ! j) = group_key b g" by (rule assms(4))
  qed
  with saveFailedOperation_store [OF assms(1), of g s] assms(2) show ?thesis
    by (auto simp: store_invariant_def)
qed

lemma saveFailedOperation_new:
  assumes "getCurrentInstanceId b = Inr i"
    and "group_key b g \<notin> group_key b ` set (failedOperations_of b s)"
  shows "\<exists>s'. saveFailedOperation b g s = (Inr (), s') \<and>
     failedOperations_of b s' = take 20 (g # failedOperations_of b s)"
proof -
  have eq: "(op_action g, toLowerCase b (op_labelName g)) = group_key b g"
    by (simp add: group_key_def)
  from assms(2) have "findIndex (same_operation b (op_action g) (op_labelName g)) (failedOperations_of b s) = None"
    unfolding findIndex_None same_operation_key eq by (metis imageI)
  with saveFailedOperation_store [OF assms(1), of g s] show ?thesis by auto
qed

lemma retry_invariant:
  assumes "store_invariant b (failedOperations_of b s)"
    and "retryFailedOperation b index order s = Some (r, s')"
  shows "store_invariant b (failedOperations_of b s')"
  using retry_store_cases [OF assms(2)] assms(1)
  by (auto simp: store_invariant_splice1 store_invariant_update)










lemma handleAction_unfold:
  assumes "trim b (labelInput_value b) \<noteq> []"
  shows "handleAction b act order s =
     (case handleAction_try b act (trim b (labelInput_value b)) (clock b (clock_reads s))
             \<lparr>ex_action = act, ex_labelName = trim b (labelInput_value b), ex_totalCount = 0,
              ex_successCount = 0, ex_failedCount = 0, ex_failedUids = [],
              ex_startTime = clock b (Suc (clock_reads s)), ex_duration = 0, ex_error = None,
              ex_isRetry = False, ex_id = None\<rparr>
             order (snd (Date_now b (snd (Date_now b s)))) of
        None \<Rightarrow> None
      | Some (Inr u, R, s3) \<Rightarrow> Some (Inr (), s3)
      | Some (Inl e, R, s3) \<Rightarrow>
          Some (saveExecutionResult b
                  (R\<lparr>ex_error := Some e,
                     ex_duration := int (clock b (clock_reads s3)) - int (clock b (clock_reads s))\<rparr>)
                  (s3\<lparr>clock_reads := Suc (clock_reads s3)\<rparr>)))"
  using assms
  by (simp add: handleAction_def Let_def Date_now_def split: option.splits prod.splits sum.splits)









lemma cat_fields [simp]:
  "server cat_browser = example_server"
  "clock cat_browser = example_clock"
  "labelInput_value cat_browser = ''cat''"
  "toLowerCase cat_browser = ascii_toLowerCase"
  "trim cat_browser = ascii_trim"
  by (simp_all add: cat_browser_def example_browser_def)






lemma addToRecentLabels_frame:
  assumes "getCurrentInstanceId b = Inr i"
  shows "\<exists>s'. addToRecentLabels b a s = (Inr (), s') \<and>
     failedOperations_of b s' = failedOperations_of b s \<and>
     executionHistory_of b s' = executionHistory_of b s"
proof (cases "trim b a = []")
  case True
  then show ?thesis by (simp add: addToRecentLabels_def)
next
  case False
  from addToRecentLabels_store [OF assms False, of s] show ?thesis by blast
qed

lemma handleAction_reports:
  assumes l: "trim b (labelInput_value b) \<noteq> []" and src: "getPhotoPrismData b = Inr d"
    and ne: "uids d \<noteq> []" and res: "getCurrentInstanceId b = Inr i"
    and ra: "run_action b act (trim b (labelInput_value b)) (uids d) (token d) order
       (snd (Date_now b (snd (Date_now b s)))) = Some (Inr c, s1)"
    and f: "failedUids c \<noteq> []"
  shows "\<exists>s'. handleAction b act order s = Some (Inr (), s') \<and>
     failedOperations_of b s' =
       take 20 (case findIndex (same_operation b act (trim b (labelInput_value b)))
                       (failedOperations_of b s) of
                  Some j \<Rightarrow> (failedOperations_of b s)
                     [j := failure_report act (trim b (labelInput_value b)) (failedUids c)
                             (clock b (clock_reads s + 4))]
                | None \<Rightarrow> failure_report act (trim b (labelInput_value b)) (failedUids c)
                             (clock b (clock_reads s + 4)) # failedOperations_of b s)"
proof -
  let ?l = "trim b (labelInput_value b)"
  let ?s2 = "snd (Date_now b (snd (Date_now b s)))"
  let ?R = "\<lparr>ex_action = act, ex_labelName = ?l, ex_totalCount = 0,
              ex_successCount = 0, ex_failedCount = 0, ex_failedUids = [],
              ex_startTime = clock b (Suc (clock_reads s)), ex_duration = 0, ex_error = None,
              ex_isRetry = False, ex_id = None\<rparr>"
  let ?R1 = "?R\<lparr>ex_totalCount := length (uids d), ex_successCount := successCount c,
      ex_failedCount := failedCount c, ex_failedUids := failedUids c,
      ex_duration := int (clock b (clock_reads s1)) - int (clock b (clock_reads s))\<rparr>"
  let ?g = "failure_report act ?l (failedUids c) (clock b (clock_reads s + 4))"
  note fr = run_action_frame [OF ra]
  from fr(1) have c1: "clock_reads s1 = Suc (Suc (clock_reads s))" by (simp add: Date_now_twice)
  from fr(2) have f1: "failedOperations_of b s1 = failedOperations_of b s"
    by (simp add: Date_now_twice)
  from saveExecutionResult_resolved [OF res, of ?R1 "s1\<lparr>clock_reads := Suc (clock_reads s1)\<rparr>"]
  obtain s3 where
    sv: "saveExecutionResult b ?R1 (s1\<lparr>clock_reads := Suc (clock_reads s1)\<rparr>) = (Inr (), s3)"
    and f3: "failedOperations_of b s3 = failedOperations_of b s1"
    and c3: "clock_reads s3 = Suc (Suc (clock_reads s1))"
    by auto
  have "clock_reads s + 4 = Suc (Suc (Suc (Suc (clock_reads s))))" by simp
  then have now: "clock b (clock_reads s3) = clock b (clock_reads s + 4)"
    by (simp only: c3 c1)
  have f3': "failedOperations_of b (s3\<lparr>clock_reads := Suc (clock_reads s3)\<rparr>) = failedOperations_of b s"
    by (simp add: f3 f1)
  have key: "op_action ?g = act" "op_labelName ?g = ?l"
    by (simp_all add: failure_report_def)
  from saveFailedOperation_store [OF res, of ?g "s3\<lparr>clock_reads := Suc (clock_reads s3)\<rparr>"]
  obtain s5 where
    sf: "saveFailedOperation b ?g (s3\<lparr>clock_reads := Suc (clock_reads s3)\<rparr>) = (Inr (), s5)"
    and f5raw: "failedOperations_of b s5 =
       take 20 (case findIndex (same_operation b (op_action ?g) (op_labelName ?g))
                       (failedOperations_of b (s3\<lparr>clock_reads := Suc (clock_reads s3)\<rparr>)) of
                  Some i \<Rightarrow> (failedOperations_of b (s3\<lparr>clock_reads := Suc (clock_reads s3)\<rparr>))[i := ?g]
                | None \<Rightarrow> ?g # failedOperations_of b (s3\<lparr>clock_reads := Suc (clock_reads s3)\<rparr>))"
    by blast
  note f5 = f5raw [unfolded f3' key]
  from addToRecentLabels_frame [OF res, of ?l s5] obtain s6 where
    ar: "addToRecentLabels b ?l s5 = (Inr (), s6)"
    and f6: "failedOperations_of b s6 = failedOperations_of b s5"
    by blast
  have t: "handleAction_try b act ?l (clock b (clock_reads s)) ?R order ?s2 = Some (Inr (), ?R1, s6)"
    using src ne ra sv sf ar f now
    by (simp add: handleAction_try_def Let_def Date_now_def)
  have "handleAction b act order s = Some (Inr (), s6)"
    unfolding handleAction_unfold [OF l] t by simp
  with f6 f5 show ?thesis by simp
qed





lemma Cat_fields [simp]:
  "server Cat_browser = example_server"
  "clock Cat_browser = example_clock"
  "labelInput_value Cat_browser = ''Cat''"
  "toLowerCase Cat_browser = ascii_toLowerCase"
  "trim Cat_browser = ascii_trim"
  by (simp_all add: Cat_browser_def example_browser_def)

lemma Cat_instance: "getCurrentInstanceId Cat_browser = Inr ''https://photos.example.com''"
  by (simp add: getCurrentInstanceId_def Cat_browser_def example_browser_def new_URL_def
      example_parse_def)

lemma Cat_baseUrl: "currentBaseUrl Cat_browser = Inr ''https://photos.example.com''"
  by (simp add: currentBaseUrl_instance Cat_instance)

lemma Cat_source: "getPhotoPrismData Cat_browser = Inr \<lparr>uids = [''x1'', ''x2'', ''x3''], token = ''tok''\<rparr>"
  by (simp add: getPhotoPrismData_def Cat_browser_def example_browser_def)

lemma Cat_three:
  "failedOperations_of Cat_browser three_groups_state = [bird_group, retried_group, removal_group]"
  by (simp add: failedOperations_of_def getInstanceData_resolved [OF Cat_instance]
      three_groups_state_def example_key_def)

lemma Cat_batch:
  "run_action Cat_browser Add l [''x1'', ''x2'', ''x3''] tok [0, 1, 2] s =
   Some (Inr \<lparr>processedCount = 3, successCount = 2, failedCount = 1, failedUids = [''x3'']\<rparr>,
         s\<lparr>requests := requests s @
           [addLabel_request ''https://photos.example.com'' ''x1'' l tok,
            addLabel_request ''https://photos.example.com'' ''x2'' l tok,
            addLabel_request ''https://photos.example.com'' ''x3'' l tok]\<rparr>)"
  by (simp add: run_action_def batchProcess_def addLabel_def Cat_baseUrl fetch_def Let_def
      settle_def ok_def addLabel_request_def example_server_def)

lemma ascii_trim_plain [simp]:
  "ascii_trim ''dog'' = ''dog''" "ascii_trim ''cat'' = ''cat''" "ascii_trim ''Cat'' = ''Cat''"
  "ascii_trim ''constructor'' = ''constructor''"
  by (simp_all add: ascii_trim_def isSpace_def)

lemma ascii_toLowerCase_plain [simp]:
  "ascii_toLowerCase ''Cat'' = ''cat''" "ascii_toLowerCase ''cat'' = ''cat''"
  "ascii_toLowerCase ''bird'' = ''bird''"
  by (simp_all add: ascii_toLowerCase_def toLowerChar_def)

lemma constructor_fields [simp]:
  "server constructor_browser = example_server"
  "clock constructor_browser = example_clock"
  "labelInput_value constructor_browser = ''constructor''"
  "toLowerCase constructor_browser = ascii_toLowerCase"
  "trim constructor_browser = ascii_trim"
  by (simp_all add: constructor_browser_def example_browser_def)





lemma frozen_fields [simp]:
  "clock frozen_browser = frozen_clock"
  by (simp_all add: frozen_browser_def example_browser_def)

lemma frozen_instance: "getCurrentInstanceId frozen_browser = Inr ''https://photos.example.com''"
  by (simp add: getCurrentInstanceId_def frozen_browser_def example_browser_def new_URL_def
      example_parse_def)

lemma toString_1000: "toString 1000 = ''1000''" "toString 1001 = ''1001''" "toString 7 = ''7''"
  by (simp_all add: toString.simps digit_def)


section \<open>The instance-scoped store\<close>

text \<open>
  Claim C9 says that \<^verbatim>\<open>get\<close> and \<^verbatim>\<open>set\<close> both fail with an instance-resolution error when
  no active origin can be determined.  \<^verbatim>\<open>getInstanceData\<close> does not: with no active tab its
  \<^verbatim>\<open>try\<close> block throws and its \<^verbatim>\<open>catch\<close> returns the default value to the caller.
\<close>

theorem getInstanceData_unresolved_counterexample:
  "getInstanceData_try no_tab_browser ''recentLabels'' (LabelList []) empty_state =
     Inl ''Could not determine current instance'' \<and>
   getInstanceData no_tab_browser ''recentLabels'' (LabelList []) empty_state = LabelList []"
  by (simp add: getInstanceData_def getInstanceData_try_def no_tab_instance)

text \<open>
  Claim C9, amended: when no active origin can be determined, \<^verbatim>\<open>setInstanceData\<close> fails
  with the instance-resolution error (one of the two messages of \<^verbatim>\<open>getCurrentInstanceId\<close>)
  and leaves the storage as it was, while \<^verbatim>\<open>getInstanceData\<close> catches the same error and
  returns the default value it was given.
\<close>

theorem instance_store_unresolved:
  "getCurrentInstanceId b = Inl e \<Longrightarrow>
     setInstanceData b baseKey v s = (Inl e, s) \<and>
     getInstanceData_try b baseKey defaultValue s = Inl e \<and>
     getInstanceData b baseKey defaultValue s = defaultValue \<and>
     (e = ''Could not determine current instance'' \<or> e = ''Invalid URL format'')"
  by (simp add: setInstanceData_unresolved getInstanceData_unresolved getInstanceData_try_def
      getCurrentInstanceId_messages)

theorem instance_store_unresolved_witness:
  "getCurrentInstanceId no_tab_browser = Inl ''Could not determine current instance'' \<and>
   setInstanceData no_tab_browser ''recentLabels'' (LabelList [''cat'']) empty_state =
     (Inl ''Could not determine current instance'', empty_state) \<and>
   getInstanceData no_tab_browser ''recentLabels'' (LabelList []) empty_state = LabelList []"
  using instance_store_unresolved [OF no_tab_instance, of "''recentLabels''" "LabelList [''cat'']" empty_state "LabelList []"]
    instance_store_unresolved [OF no_tab_instance, of "''recentLabels''" "LabelList [''cat'']" empty_state "LabelList []"]
  by (simp add: no_tab_instance)


section \<open>The execution recorder\<close>

text \<open>
  Claim C7 says that \<^verbatim>\<open>saveExecutionResult\<close> gives each record a unique id.  The id is the
  decimal rendering of \<^verbatim>\<open>Date.now()\<close>, a count of milliseconds: two results saved while
  the clock shows the same millisecond get the same id.
\<close>

theorem saveExecutionResult_id_counterexample:
  "clock frozen_browser 0 = 1000 \<and> clock frozen_browser 1 = 1000 \<and>
   (\<exists>s1 s2. saveExecutionResult frozen_browser new_result empty_state = (Inr (), s1) \<and>
      saveExecutionResult frozen_browser oldest_result s1 = (Inr (), s2) \<and>
      executionHistory_of frozen_browser s2 =
        [oldest_result\<lparr>ex_id := Some ''1000''\<rparr>, new_result\<lparr>ex_id := Some ''1000''\<rparr>])"
proof -
  have h0: "executionHistory_of frozen_browser empty_state = []"
    by (simp add: executionHistory_of_def getInstanceData_resolved [OF frozen_instance]
        empty_state_def)
  from saveExecutionResult_resolved [OF frozen_instance, of new_result empty_state]
  obtain s1 where s1: "saveExecutionResult frozen_browser new_result empty_state = (Inr (), s1)"
    and h1: "executionHistory_of frozen_browser s1 =
       take 50 (new_result\<lparr>ex_id := Some (toString (clock frozen_browser (clock_reads empty_state)))\<rparr> #
                executionHistory_of frozen_browser empty_state)"
    and c1: "clock_reads s1 = Suc (clock_reads empty_state)"
    by blast
  from saveExecutionResult_resolved [OF frozen_instance, of oldest_result s1]
  obtain s2 where s2: "saveExecutionResult frozen_browser oldest_result s1 = (Inr (), s2)"
    and h2: "executionHistory_of frozen_browser s2 =
       take 50 (oldest_result\<lparr>ex_id := Some (toString (clock frozen_browser (clock_reads s1)))\<rparr> #
                executionHistory_of frozen_browser s1)"
    by blast
  have "executionHistory_of frozen_browser s2 =
        [oldest_result\<lparr>ex_id := Some ''1000''\<rparr>, new_result\<lparr>ex_id := Some ''1000''\<rparr>]"
    unfolding h2 h1 h0 by (simp add: frozen_clock_def toString_1000)
  with s1 s2 show ?thesis
    by (auto simp: frozen_clock_def)
qed

text \<open>
  Claim C7, amended: on a resolvable instance \<^verbatim>\<open>saveExecutionResult\<close> gives the record the
  decimal rendering of the clock reading it takes as its id, puts the record in front of
  the history and keeps the first 50 records; when the history already holds 50 records,
  exactly its last (oldest) record is dropped.  The id is based on the time and not unique:
  two records saved one after the other have the same id exactly when the clock gave the
  two calls the same reading.
\<close>

theorem saveExecutionResult_record:
  assumes "getCurrentInstanceId b = Inr i"
  shows "\<exists>s1 s2. saveExecutionResult b r1 s = (Inr (), s1) \<and>
     saveExecutionResult b r2 s1 = (Inr (), s2) \<and>
     executionHistory_of b s1 =
       take 50 (r1\<lparr>ex_id := Some (toString (clock b (clock_reads s)))\<rparr> # executionHistory_of b s) \<and>
     executionHistory_of b s2 =
       take 50 (r2\<lparr>ex_id := Some (toString (clock b (Suc (clock_reads s))))\<rparr> #
                executionHistory_of b s1) \<and>
     (length (executionHistory_of b s) = 50 \<longrightarrow>
        executionHistory_of b s1 =
          r1\<lparr>ex_id := Some (toString (clock b (clock_reads s)))\<rparr> # butlast (executionHistory_of b s)) \<and>
     (ex_id (hd (executionHistory_of b s2)) = ex_id (hd (executionHistory_of b s1)) \<longleftrightarrow>
        clock b (Suc (clock_reads s)) = clock b (clock_reads s))"
proof -
  let ?h = "executionHistory_of b s"
  let ?r1 = "r1\<lparr>ex_id := Some (toString (clock b (clock_reads s)))\<rparr>"
  let ?r2 = "r2\<lparr>ex_id := Some (toString (clock b (Suc (clock_reads s))))\<rparr>"
  from saveExecutionResult_resolved [OF assms, of r1 s]
  obtain s1 where s1: "saveExecutionResult b r1 s = (Inr (), s1)"
    and h1: "executionHistory_of b s1 = take 50 (?r1 # ?h)"
    and c1: "clock_reads s1 = Suc (clock_reads s)"
    by blast
  from saveExecutionResult_resolved [OF assms, of r2 s1]
  obtain s2 where s2: "saveExecutionResult b r2 s1 = (Inr (), s2)"
    and h2: "executionHistory_of b s2 = take 50 (?r2 # executionHistory_of b s1)"
    unfolding c1 by blast
  have ev: "length ?h = 50 \<longrightarrow> executionHistory_of b s1 = ?r1 # butlast ?h"
    unfolding h1 using take_Cons_butlast [of ?h 49 ?r1] by simp
  have "ex_id (hd (executionHistory_of b s2)) = Some (toString (clock b (Suc (clock_reads s))))"
    "ex_id (hd (executionHistory_of b s1)) = Some (toString (clock b (clock_reads s)))"
    unfolding h2 h1 by simp_all
  then have ids: "ex_id (hd (executionHistory_of b s2)) = ex_id (hd (executionHistory_of b s1)) \<longleftrightarrow>
        clock b (Suc (clock_reads s)) = clock b (clock_reads s)"
    using toString_inj [of "clock b (Suc (clock_reads s))" "clock b (clock_reads s)"] by auto
  show ?thesis
    apply (rule exI [of _ s1], rule exI [of _ s2])
    using s1 s2 h1 h2 ev ids by simp
qed

theorem saveExecutionResult_record_witness:
  "getCurrentInstanceId example_browser = Inr ''https://photos.example.com'' \<and>
   executionHistory_of example_browser full_history_state = replicate 49 old_result @ [oldest_result] \<and>
   length (executionHistory_of example_browser full_history_state) = 50 \<and>
   (\<exists>s1 s2. saveExecutionResult example_browser new_result full_history_state = (Inr (), s1) \<and>
      saveExecutionResult example_browser new_result s1 = (Inr (), s2) \<and>
      executionHistory_of example_browser s1 =
        new_result\<lparr>ex_id := Some ''1000''\<rparr> # replicate 49 old_result \<and>
      executionHistory_of example_browser s2 =
        new_result\<lparr>ex_id := Some ''1001''\<rparr> # new_result\<lparr>ex_id := Some ''1000''\<rparr> #
        replicate 48 old_result)"
proof -
  have len: "length (executionHistory_of example_browser full_history_state) = 50"
    by (simp add: full_history)
  have now: "clock example_browser (clock_reads full_history_state) = 1000"
    "clock example_browser (Suc (clock_reads full_history_state)) = 1001"
    by (simp_all add: example_clock_def full_history_state_def)
  have t2: "take 50 (x # y # replicate 49 old_result) = x # y # replicate 48 old_result" for x y
    by (simp add: take_Cons')
  from saveExecutionResult_record [OF example_instance, of new_result full_history_state new_result]
  obtain s1 s2 where
    s: "saveExecutionResult example_browser new_result full_history_state = (Inr (), s1)"
      "saveExecutionResult example_browser new_result s1 = (Inr (), s2)"
    and h2: "executionHistory_of example_browser s2 =
       take 50 (new_result\<lparr>ex_id := Some (toString (clock example_browser (Suc (clock_reads full_history_state))))\<rparr> #
                executionHistory_of example_browser s1)"
    and ev: "length (executionHistory_of example_browser full_history_state) = 50 \<longrightarrow>
        executionHistory_of example_browser s1 =
          new_result\<lparr>ex_id := Some (toString (clock example_browser (clock_reads full_history_state)))\<rparr> #
          butlast (executionHistory_of example_browser full_history_state)"
    by blast
  from ev len have h1: "executionHistory_of example_browser s1 =
      new_result\<lparr>ex_id := Some ''1000''\<rparr> # replicate 49 old_result"
    unfolding now by (simp add: full_history toString_1000)
  have h2': "executionHistory_of example_browser s2 =
        new_result\<lparr>ex_id := Some ''1001''\<rparr> # new_result\<lparr>ex_id := Some ''1000''\<rparr> #
        replicate 48 old_result"
    unfolding h2 h1 now by (simp only: t2 toString_1000)
  have "\<exists>s1 s2. saveExecutionResult example_browser new_result full_history_state = (Inr (), s1) \<and>
      saveExecutionResult example_browser new_result s1 = (Inr (), s2) \<and>
      executionHistory_of example_browser s1 =
        new_result\<lparr>ex_id := Some ''1000''\<rparr> # replicate 49 old_result \<and>
      executionHistory_of example_browser s2 =
        new_result\<lparr>ex_id := Some ''1001''\<rparr> # new_result\<lparr>ex_id := Some ''1000''\<rparr> #
        replicate 48 old_result"
    apply (rule exI [of _ s1], rule exI [of _ s2])
    using s h1 h2' by simp
  with len show ?thesis by (simp add: example_instance full_history)
qed


section \<open>The batch dispatcher\<close>



text \<open>
  Claim C8 says that for "remove" a 404 reply counts as a success.  The status check of
  \<^verbatim>\<open>removeLabel\<close> lets a 404 reply pass, as its comment "Ignore 404 (label not on photo)"
  announces, but the function then returns \<^verbatim>\<open>response.json()\<close>.  On a 404 reply whose
  body is not JSON that promise rejects, the call rejects with it, and \<^verbatim>\<open>batchProcess\<close>
  counts the identifier as failed: the 404 is not ignored.
\<close>

theorem removeLabel_404_not_json:
  "server plain404_browser 0
     \<lparr>req_method = DELETE, address = ''https://photos.example.com/api/v1/photos/x1/label/7'',
      auth_token = ''tok'', body_Name = None\<rparr> =
     Response \<lparr>status = 404, body_text = ''Not Found'', json = None\<rparr> \<and>
   removeLabel plain404_browser ''x1'' (Number 7) ''tok'' empty_state =
     (Inl SyntaxError_json,
      empty_state\<lparr>requests :=
        [\<lparr>req_method = DELETE, address = ''https://photos.example.com/api/v1/photos/x1/label/7'',
          auth_token = ''tok'', body_Name = None\<rparr>]\<rparr>) \<and>
   batchProcess [0] [''x1''] (\<lambda>uid. removeLabel plain404_browser uid (Number 7) ''tok'') empty_state =
     Some (\<lparr>processedCount = 1, successCount = 0, failedCount = 1, failedUids = [''x1'']\<rparr>,
           empty_state\<lparr>requests :=
             [\<lparr>req_method = DELETE, address = ''https://photos.example.com/api/v1/photos/x1/label/7'',
               auth_token = ''tok'', body_Name = None\<rparr>]\<rparr>)"
proof -
  have rq: "removeLabel_request ''https://photos.example.com'' ''x1'' (Number 7) ''tok'' =
      \<lparr>req_method = DELETE, address = ''https://photos.example.com/api/v1/photos/x1/label/7'',
       auth_token = ''tok'', body_Name = None\<rparr>"
    by (simp add: removeLabel_request_def toString_1000)
  have one: "removeLabel plain404_browser ''x1'' (Number 7) ''tok'' empty_state =
     (Inl SyntaxError_json,
      empty_state\<lparr>requests := [removeLabel_request ''https://photos.example.com'' ''x1'' (Number 7) ''tok'']\<rparr>)"
    by (simp add: removeLabel_def plain404_baseUrl fetch_def Let_def empty_state_def ok_def
        plain404_server_def)
  from one plain404_remove_batch show ?thesis
    unfolding rq by (simp add: plain404_server_def)
qed

section \<open>Retrying a failure group\<close>



text \<open>
  Claim C10: when a retry fails before its batch has run, because the page yields no data
  or because the label ID of a "remove" cannot be resolved, the stored failure groups are
  what they were (identifiers, retry count and time stamp included), and a record with
  \<open>isRetry\<close> set, both counts 0 and the message of the error is put in front of the history.
\<close>

theorem retry_atomic:
  assumes "index < length (failedOperations_of b s)"
    and "op_failedUids (failedOperations_of b s ! index) \<noteq> []"
    and "getPhotoPrismData b = Inl e \<or>
       (\<exists>d s1. getPhotoPrismData b = Inr d \<and>
          op_action (failedOperations_of b s ! index) = Remove \<and>
          getLabelId b (op_labelName (failedOperations_of b s ! index))
            (first_uid (op_failedUids (failedOperations_of b s ! index))) (token d)
            (snd (Date_now b (snd (Date_now b s)))) = (Inl e, s1))"
  shows "\<exists>s' rec. retryFailedOperation b index order s = Some (Inr (), s') \<and>
     failedOperations_of b s' = failedOperations_of b s \<and>
     executionHistory_of b s' = take 50 (rec # executionHistory_of b s) \<and>
     ex_isRetry rec \<and> ex_successCount rec = 0 \<and> ex_failedCount rec = 0 \<and>
     ex_failedUids rec = [] \<and> ex_error rec = Some e \<and>
     ex_action rec = op_action (failedOperations_of b s ! index) \<and>
     ex_labelName rec = op_labelName (failedOperations_of b s ! index) \<and>
     ex_totalCount rec = length (op_failedUids (failedOperations_of b s ! index))"
proof -
  from assms(3) have "getPhotoPrismData b = Inl e \<or>
       (\<exists>d s1. getPhotoPrismData b = Inr d \<and>
          run_action b (op_action (failedOperations_of b s ! index))
            (op_labelName (failedOperations_of b s ! index))
            (op_failedUids (failedOperations_of b s ! index)) (token d) order
            (snd (Date_now b (snd (Date_now b s)))) = Some (Inl e, s1))"
    by (auto simp: run_action_Inl)
  from retry_aborted [OF assms(1,2) this] show ?thesis .
qed

theorem retry_atomic_witness:
  "0 < length (failedOperations_of example_browser dog_state) \<and>
   op_failedUids (failedOperations_of example_browser dog_state ! 0) = [''x1''] \<and>
   op_action (failedOperations_of example_browser dog_state ! 0) = Remove \<and>
   isl (fst (getLabelId example_browser ''dog'' ''x1'' ''tok''
     (snd (Date_now example_browser (snd (Date_now example_browser dog_state)))))) \<and>
   (\<exists>s' rec. retryFailedOperation example_browser 0 [0] dog_state = Some (Inr (), s') \<and>
      failedOperations_of example_browser s' = [dog_group] \<and>
      executionHistory_of example_browser s' = [rec] \<and> ex_isRetry rec \<and>
      ex_successCount rec = 0 \<and> ex_error rec \<noteq> None)"
proof -
  have h0: "executionHistory_of example_browser dog_state = []"
    by (simp add: executionHistory_of_def getInstanceData_resolved [OF example_instance]
        dog_state_def example_key_def createInstanceKey_def)
  have g: "op_failedUids dog_group = [''x1'']" "op_action dog_group = Remove"
    "op_labelName dog_group = ''dog''"
    by (simp_all add: dog_group_def)
  have i: "0 < length (failedOperations_of example_browser dog_state)"
    "op_failedUids (failedOperations_of example_browser dog_state ! 0) \<noteq> []"
    by (simp_all add: example_dog g)
  let ?e = "''Failed to get label ID: '' @ ''Label '' @ [CHR 0x22] @ ''dog'' @ [CHR 0x22] @
         '' not found on the photo, cannot determine its ID.''"
  have f: "getPhotoPrismData example_browser = Inl ?e \<or>
       (\<exists>d s1. getPhotoPrismData example_browser = Inr d \<and>
          op_action (failedOperations_of example_browser dog_state ! 0) = Remove \<and>
          getLabelId example_browser (op_labelName (failedOperations_of example_browser dog_state ! 0))
            (first_uid (op_failedUids (failedOperations_of example_browser dog_state ! 0))) (token d)
            (snd (Date_now example_browser (snd (Date_now example_browser dog_state)))) = (Inl ?e, s1))"
    using example_resolve_dog by (simp add: example_source example_dog g first_uid_def)
  from retry_atomic [OF i f, of "[0]"] example_resolve_dog i show ?thesis
    by (auto simp: example_dog g h0)
qed


section \<open>Removing a label\<close>



section \<open>The failure tracker\<close>


text \<open>
  Claim C5 says that a failure reported for a key that has a group changes only the failed
  identifiers and the time stamp of that group, and leaves its retry count alone unless the
  report comes from a retry.  A failed "add" of the label "Cat" from the popup, with a group
  for "add cat" in the store that has been retried twice, changes more: the group takes the
  spelling "Cat" and its retry count goes back to 0.
\<close>

theorem handleAction_report_counterexample:
  "failedOperations_of Cat_browser three_groups_state =
     [bird_group,
      \<lparr>op_action = Add, op_labelName = ''cat'', op_failedUids = [''x3''],
       op_timestamp = 900, op_retryCount = 2\<rparr>,
      removal_group] \<and>
   (\<exists>s'. handleAction Cat_browser Add [0, 1, 2] three_groups_state = Some (Inr (), s') \<and>
      failedOperations_of Cat_browser s' =
        [bird_group,
         \<lparr>op_action = Add, op_labelName = ''Cat'', op_failedUids = [''x3''],
          op_timestamp = 1004, op_retryCount = 0\<rparr>,
         removal_group])"
proof -
  let ?d = "\<lparr>uids = [''x1'', ''x2'', ''x3''], token = ''tok''\<rparr>"
  let ?c = "\<lparr>processedCount = 3, successCount = 2, failedCount = 1, failedUids = [''x3'']\<rparr>"
  have l: "trim Cat_browser (labelInput_value Cat_browser) \<noteq> []" by simp
  have ne: "uids ?d \<noteq> []" by simp
  have f: "failedUids ?c \<noteq> []" by simp
  have ra: "run_action Cat_browser Add (trim Cat_browser (labelInput_value Cat_browser)) (uids ?d)
      (token ?d) [0, 1, 2] (snd (Date_now Cat_browser (snd (Date_now Cat_browser three_groups_state)))) =
    Some (Inr ?c, (snd (Date_now Cat_browser (snd (Date_now Cat_browser three_groups_state))))
      \<lparr>requests := requests (snd (Date_now Cat_browser (snd (Date_now Cat_browser three_groups_state)))) @
           [addLabel_request ''https://photos.example.com'' ''x1'' ''Cat'' ''tok'',
            addLabel_request ''https://photos.example.com'' ''x2'' ''Cat'' ''tok'',
            addLabel_request ''https://photos.example.com'' ''x3'' ''Cat'' ''tok'']\<rparr>)"
    using Cat_batch [of "''Cat''" "''tok''"] by simp
  have idx: "findIndex (same_operation Cat_browser Add ''Cat'') [bird_group, retried_group, removal_group] =
      Some 1"
    by (simp add: same_operation_def bird_group_def retried_group_def removal_group_def)
  have now: "clock Cat_browser (clock_reads three_groups_state + 4) = 1004"
    by (simp add: example_clock_def three_groups_state_def)
  have tr: "trim Cat_browser (labelInput_value Cat_browser) = ''Cat''" by simp
  note h = handleAction_reports [OF l Cat_source ne Cat_instance ra f, unfolded tr Cat_three idx now]
  from h have "\<exists>s'. handleAction Cat_browser Add [0, 1, 2] three_groups_state = Some (Inr (), s') \<and>
      failedOperations_of Cat_browser s' =
        [bird_group, failure_report Add ''Cat'' [''x3''] 1004, removal_group]"
    by simp
  then show ?thesis
    by (simp add: Cat_three retried_group_def failure_report_def)
qed

text \<open>
  Claim C5, amended: a failure reported for a key that has a group replaces that group as a
  whole by the reported group, at the same position; the other groups are unchanged.  The
  group that \<^verbatim>\<open>handleAction\<close> reports after a batch with failures carries the label name as
  typed, the failed identifiers of the batch, the time of the report and the retry count 0,
  so a report from the popup changes the failed identifiers and the time stamp of the stored
  group, and also sets its label name to the new spelling and its retry count to 0.
\<close>

theorem failure_report_replaces:
  assumes "store_invariant b (failedOperations_of b s)"
    and "j < length (failedOperations_of b s)"
  shows "(\<forall>g. group_key b g = group_key b (failedOperations_of b s ! j) \<longrightarrow>
            (\<exists>s'. saveFailedOperation b g s = (Inr (), s') \<and>
               failedOperations_of b s' = (failedOperations_of b s)[j := g])) \<and>
     (\<forall>d c s1. trim b (labelInput_value b) \<noteq> [] \<and> getPhotoPrismData b = Inr d \<and> uids d \<noteq> [] \<and>
          group_key b (failedOperations_of b s ! j) =
            (act, toLowerCase b (trim b (labelInput_value b))) \<and>
          run_action b act (trim b (labelInput_value b)) (uids d) (token d) order
            (snd (Date_now b (snd (Date_now b s)))) = Some (Inr c, s1) \<and>
          failedUids c \<noteq> [] \<longrightarrow>
        (\<exists>s'. handleAction b act order s = Some (Inr (), s') \<and>
           failedOperations_of b s' =
             (failedOperations_of b s)
               [j := \<lparr>op_action = act, op_labelName = trim b (labelInput_value b),
                      op_failedUids = failedUids c,
                      op_timestamp = clock b (clock_reads s + 4), op_retryCount = 0\<rparr>] \<and>
           length (failedOperations_of b s') = length (failedOperations_of b s) \<and>
           (\<forall>k. k \<noteq> j \<longrightarrow> failedOperations_of b s' ! k = failedOperations_of b s ! k)))"
proof (intro conjI allI impI)
  from failedOperations_resolved [OF assms(2)] obtain i where res: "getCurrentInstanceId b = Inr i" ..
  {
    fix g assume "group_key b g = group_key b (failedOperations_of b s ! j)"
    then have "group_key b (failedOperations_of b s ! j) = group_key b g" by simp
    from saveFailedOperation_existing [OF res assms this]
    show "\<exists>s'. saveFailedOperation b g s = (Inr (), s') \<and>
               failedOperations_of b s' = (failedOperations_of b s)[j := g]" .
  }
  fix d :: page_data and c :: batch_counters and s1 :: state
  let ?l = "trim b (labelInput_value b)"
  let ?g = "\<lparr>op_action = act, op_labelName = ?l, op_failedUids = failedUids c,
             op_timestamp = clock b (clock_reads s + 4), op_retryCount = 0\<rparr>"
  assume a: "?l \<noteq> [] \<and> getPhotoPrismData b = Inr d \<and> uids d \<noteq> [] \<and>
          group_key b (failedOperations_of b s ! j) = (act, toLowerCase b ?l) \<and>
          run_action b act ?l (uids d) (token d) order
            (snd (Date_now b (snd (Date_now b s)))) = Some (Inr c, s1) \<and>
          failedUids c \<noteq> []"
  then have l: "?l \<noteq> []" and src: "getPhotoPrismData b = Inr d" and ne: "uids d \<noteq> []"
    and key: "group_key b (failedOperations_of b s ! j) = (act, toLowerCase b ?l)"
    and ra: "run_action b act ?l (uids d) (token d) order
            (snd (Date_now b (snd (Date_now b s)))) = Some (Inr c, s1)"
    and f: "failedUids c \<noteq> []"
    by simp_all
  have idx: "findIndex (same_operation b act ?l) (failedOperations_of b s) = Some j"
  proof (rule findIndex_key [where f = "group_key b" and k = "(act, toLowerCase b ?l)"])
    show "distinct (map (group_key b) (failedOperations_of b s))"
      using assms(1) by (simp add: store_invariant_def)
    show "j < length (failedOperations_of b s)" by (rule assms(2))
    show "same_operation b act ?l x \<longleftrightarrow> group_key b x = (act, toLowerCase b ?l)" for x
      by (rule same_operation_key)
    show "group_key b (failedOperations_of b s ! j) = (act, toLowerCase b ?l)" by (rule key)
  qed
  from assms(1) have len: "length (failedOperations_of b s) \<le> 20"
    by (simp add: store_invariant_def)
  from handleAction_reports [OF l src ne res ra f] obtain s' where
    h: "handleAction b act order s = Some (Inr (), s')"
    and st: "failedOperations_of b s' = take 20 ((failedOperations_of b s)[j := ?g])"
    unfolding idx by (auto simp: failure_report_def)
  from st len have st': "failedOperations_of b s' = (failedOperations_of b s)[j := ?g]" by simp
  show "\<exists>s'. handleAction b act order s = Some (Inr (), s') \<and>
           failedOperations_of b s' = (failedOperations_of b s)[j := ?g] \<and>
           length (failedOperations_of b s') = length (failedOperations_of b s) \<and>
           (\<forall>k. k \<noteq> j \<longrightarrow> failedOperations_of b s' ! k = failedOperations_of b s ! k)"
    using h st' by (intro exI [of _ s']) simp
qed

theorem failure_report_replaces_witness:
  "store_invariant Cat_browser (failedOperations_of Cat_browser three_groups_state) \<and>
   failedOperations_of Cat_browser three_groups_state = [bird_group, retried_group, removal_group] \<and>
   group_key Cat_browser retried_group = (Add, ''cat'') \<and> op_retryCount retried_group = 2 \<and>
   (\<exists>s'. saveFailedOperation Cat_browser
          \<lparr>op_action = Add, op_labelName = ''CAT'', op_failedUids = [''x1''],
           op_timestamp = 1010, op_retryCount = 7\<rparr> three_groups_state = (Inr (), s') \<and>
      failedOperations_of Cat_browser s' =
        [bird_group,
         \<lparr>op_action = Add, op_labelName = ''CAT'', op_failedUids = [''x1''],
          op_timestamp = 1010, op_retryCount = 7\<rparr>,
         removal_group]) \<and>
   (\<exists>s'. handleAction Cat_browser Add [0, 1, 2] three_groups_state = Some (Inr (), s') \<and>
      failedOperations_of Cat_browser s' =
        [bird_group,
         \<lparr>op_action = Add, op_labelName = ''Cat'', op_failedUids = [''x3''],
          op_timestamp = 1004, op_retryCount = 0\<rparr>,
         removal_group])"
proof -
  let ?d = "\<lparr>uids = [''x1'', ''x2'', ''x3''], token = ''tok''\<rparr>"
  let ?c = "\<lparr>processedCount = 3, successCount = 2, failedCount = 1, failedUids = [''x3'']\<rparr>"
  let ?g = "\<lparr>op_action = Add, op_labelName = ''CAT'', op_failedUids = [''x1''],
           op_timestamp = 1010, op_retryCount = 7\<rparr>"
  have inv: "store_invariant Cat_browser (failedOperations_of Cat_browser three_groups_state)"
    by (simp add: Cat_three store_invariant_def group_key_def bird_group_def retried_group_def
        removal_group_def)
  have j: "1 < length (failedOperations_of Cat_browser three_groups_state)"
    by (simp add: Cat_three)
  have k: "group_key Cat_browser retried_group = (Add, ''cat'')"
    by (simp add: group_key_def retried_group_def)
  have kg: "group_key Cat_browser ?g = group_key Cat_browser (failedOperations_of Cat_browser three_groups_state ! 1)"
    by (simp add: Cat_three group_key_def retried_group_def ascii_toLowerCase_def toLowerChar_def)
  have ra: "run_action Cat_browser Add (trim Cat_browser (labelInput_value Cat_browser)) (uids ?d)
      (token ?d) [0, 1, 2] (snd (Date_now Cat_browser (snd (Date_now Cat_browser three_groups_state)))) =
    Some (Inr ?c, (snd (Date_now Cat_browser (snd (Date_now Cat_browser three_groups_state))))
      \<lparr>requests := requests (snd (Date_now Cat_browser (snd (Date_now Cat_browser three_groups_state)))) @
           [addLabel_request ''https://photos.example.com'' ''x1'' ''Cat'' ''tok'',
            addLabel_request ''https://photos.example.com'' ''x2'' ''Cat'' ''tok'',
            addLabel_request ''https://photos.example.com'' ''x3'' ''Cat'' ''tok'']\<rparr>)"
    using Cat_batch [of "''Cat''" "''tok''"] by simp
  have now: "clock Cat_browser (clock_reads three_groups_state + 4) = 1004"
    by (simp add: example_clock_def three_groups_state_def)
  note t = failure_report_replaces [OF inv j, of Add "[0, 1, 2]"]
  from t [THEN conjunct1, rule_format, OF kg]
  have one: "\<exists>s'. saveFailedOperation Cat_browser ?g three_groups_state = (Inr (), s') \<and>
      failedOperations_of Cat_browser s' = [bird_group, ?g, removal_group]"
    by (simp add: Cat_three)
  have pre: "trim Cat_browser (labelInput_value Cat_browser) \<noteq> [] \<and>
      getPhotoPrismData Cat_browser = Inr ?d \<and> uids ?d \<noteq> [] \<and>
      group_key Cat_browser (failedOperations_of Cat_browser three_groups_state ! 1) =
        (Add, toLowerCase Cat_browser (trim Cat_browser (labelInput_value Cat_browser))) \<and>
      run_action Cat_browser Add (trim Cat_browser (labelInput_value Cat_browser)) (uids ?d)
        (token ?d) [0, 1, 2] (snd (Date_now Cat_browser (snd (Date_now Cat_browser three_groups_state)))) =
      Some (Inr ?c, (snd (Date_now Cat_browser (snd (Date_now Cat_browser three_groups_state))))
        \<lparr>requests := requests (snd (Date_now Cat_browser (snd (Date_now Cat_browser three_groups_state)))) @
           [addLabel_request ''https://photos.example.com'' ''x1'' ''Cat'' ''tok'',
            addLabel_request ''https://photos.example.com'' ''x2'' ''Cat'' ''tok'',
            addLabel_request ''https://photos.example.com'' ''x3'' ''Cat'' ''tok'']\<rparr>) \<and>
      failedUids ?c \<noteq> []"
    using ra by (simp add: Cat_source Cat_three k)
  from t [THEN conjunct2, rule_format, OF pre]
  have two: "\<exists>s'. handleAction Cat_browser Add [0, 1, 2] three_groups_state = Some (Inr (), s') \<and>
      failedOperations_of Cat_browser s' =
        [bird_group,
         \<lparr>op_action = Add, op_labelName = ''Cat'', op_failedUids = [''x3''],
          op_timestamp = 1004, op_retryCount = 0\<rparr>,
         removal_group]"
    unfolding now by (auto simp: Cat_three)
  from inv k one two show ?thesis
    by (simp add: Cat_three retried_group_def)
qed

section \<open>Label names and their case\<close>




end
